theory Spec2Isabelle
  imports Main
begin

section \<open>The storage provider as the program sees it\<close>

text \<open>
  The program talks to the object store through three calls of the provider's client
  library: \<^verbatim>\<open>ListBuckets\<close>, \<^verbatim>\<open>ListMultipartUploads\<close> and
  \<^verbatim>\<open>AbortMultipartUpload\<close>. The library is not part of the repository, so the
  client is a parameter of the model: a record of three functions over a state \<open>'s\<close>.
  Each call returns what the library call returns to the program, and the next state.
  What the library does inside one call (it may send a request more than once) is not
  seen here; the section on the retryer below builds such a client from the requests. Go's pair
  \<^verbatim>\<open>(output, err)\<close> is a sum: \<open>Inl\<close> the error, \<open>Inr\<close> the output.

  Fields that the library declares as pointers (\<^verbatim>\<open>*string\<close>, \<^verbatim>\<open>*time.Time\<close>,
  and the elements of \<^verbatim>\<open>[]*Bucket\<close>, \<^verbatim>\<open>[]*MultipartUpload\<close>) are options:
  \<open>None\<close> is the nil pointer. A time is a number of seconds since the epoch.
\<close>

datatype lib_error =
    NoSuchUpload
  | NoSuchBucket
  | AccessDenied
  | SlowDown
  | RequestTimeout
  | OtherError string

record Bucket =
  Name :: "string option"

record MultipartUpload =
  Key :: "string option"
  UploadId :: "string option"
  Initiated :: "int option"

record ListBucketsOutput =
  Buckets :: "Bucket option list"

record ListMultipartUploadsInput =
  lmu_Bucket :: "string option"
  lmu_KeyMarker :: "string option"
  lmu_UploadIdMarker :: "string option"

record ListMultipartUploadsOutput =
  Uploads :: "MultipartUpload option list"
  IsTruncated :: bool
  NextKeyMarker :: "string option"
  NextUploadIdMarker :: "string option"

record AbortMultipartUploadInput =
  amu_Bucket :: "string option"
  amu_Key :: "string option"
  amu_UploadId :: "string option"

record 's S3API =
  ListBuckets :: "'s \<Rightarrow> (lib_error + ListBucketsOutput) \<times> 's"
  ListMultipartUploads ::
    "ListMultipartUploadsInput \<Rightarrow> 's \<Rightarrow> (lib_error + ListMultipartUploadsOutput) \<times> 's"
  AbortMultipartUpload :: "AbortMultipartUploadInput \<Rightarrow> 's \<Rightarrow> lib_error option \<times> 's"

text \<open>
  A session, a loaded configuration and a set of credentials are opaque handles of the
  library. \<^verbatim>\<open>s3.New(sess, cfg)\<close> builds the client of a session; the optional second
  argument is the region the call site overrides.
\<close>

datatype session = Session string

datatype aws_config = AwsConfig string

datatype credentials = Credentials string

type_synonym 's s3_New = "session \<Rightarrow> string option \<Rightarrow> 's S3API"

section \<open>Errors and results of the Go code\<close>

text \<open>
  A Go error is either the library's error handed on as it is, or the value of
  \<^verbatim>\<open>fmt.Errorf(format, strings..., err)\<close>: the format string of the source, its string
  arguments and the wrapped error. A function result is a normal return with a value, a
  return with an error, or the run-time panic of a nil pointer dereference.
\<close>

datatype go_error =
    Lib lib_error
  | Errorf string "string list" go_error

datatype 'a res =
    Ok 'a
  | Err go_error
  | NilDeref

section \<open>The world: provider state and event log\<close>

text \<open>
  The world the program runs in is the provider's state together with the log of the
  library calls issued and the lines printed so far, oldest first. The log is ghost
  state: the program never reads it; it is there so that a theorem can say which calls
  were issued, with which arguments, and what was printed.
\<close>

datatype arg = S string | E go_error

datatype event =
    New session "string option"
  | CallListBuckets
  | CallListMultipartUploads ListMultipartUploadsInput
  | CallAbortMultipartUpload AbortMultipartUploadInput
  | CallLoadDefaultConfig string
  | CallRetrieve aws_config
  | CallCreateAWSSessionWithCredentials string credentials
  | CallNewSessionWithOptions string
  | CallIniLoad
  | CallPromptRun string "string list"
  | CallRootCmdExecute "string list"
  | Printf string "arg list"
  | Println "arg list"

type_synonym 's world = "'s \<times> event list"

definition logged :: "event \<Rightarrow> 's world \<Rightarrow> 's world" where
  "logged c w = (fst w, snd w @ [c])"

definition do_New :: "'s s3_New \<Rightarrow> session \<Rightarrow> string option \<Rightarrow> 's world \<Rightarrow> 's S3API \<times> 's world" where
  "do_New new sess region w = (new sess region, logged (New sess region) w)"

definition do_ListBuckets :: "'s S3API \<Rightarrow> 's world \<Rightarrow> (lib_error + ListBucketsOutput) \<times> 's world" where
  "do_ListBuckets api w =
     (case ListBuckets api (fst w) of (r, s') \<Rightarrow> (r, (s', snd w @ [CallListBuckets])))"

definition do_ListMultipartUploads ::
  "'s S3API \<Rightarrow> ListMultipartUploadsInput \<Rightarrow> 's world
     \<Rightarrow> (lib_error + ListMultipartUploadsOutput) \<times> 's world" where
  "do_ListMultipartUploads api inp w =
     (case ListMultipartUploads api inp (fst w) of
        (r, s') \<Rightarrow> (r, (s', snd w @ [CallListMultipartUploads inp])))"

definition do_AbortMultipartUpload ::
  "'s S3API \<Rightarrow> AbortMultipartUploadInput \<Rightarrow> 's world \<Rightarrow> lib_error option \<times> 's world" where
  "do_AbortMultipartUpload api inp w =
     (case AbortMultipartUpload api inp (fst w) of
        (r, s') \<Rightarrow> (r, (s', snd w @ [CallAbortMultipartUpload inp])))"

section \<open>Package s3Access\<close>

subsection \<open>ListS3Buckets\<close>

text \<open>
  The loop \<^verbatim>\<open>for i, b := range result.Buckets { bucketNames[i] = *b.Name }\<close>: the slice
  has the length of the response, entry \<open>i\<close> is the name of bucket \<open>i\<close>. Reading the name
  of a nil bucket, or dereferencing a nil name, panics; \<open>None\<close> is that panic.
\<close>

fun bucketNames :: "Bucket option list \<Rightarrow> string list option" where
  "bucketNames [] = Some []"
| "bucketNames (None # bs) = None"
| "bucketNames (Some b # bs) =
     (case Name b of
        None \<Rightarrow> None
      | Some n \<Rightarrow> (case bucketNames bs of None \<Rightarrow> None | Some ns \<Rightarrow> Some (n # ns)))"

definition ListS3Buckets :: "'s s3_New \<Rightarrow> session \<Rightarrow> 's world \<Rightarrow> string list res \<times> 's world" where
  "ListS3Buckets new sess w =
     (case do_New new sess (Some ''ap-southeast-2'') w of
        (s3Svc, w1) \<Rightarrow>
          (case do_ListBuckets s3Svc w1 of
             (Inl err, w2) \<Rightarrow> (Err (Lib err), w2)
           | (Inr result, w2) \<Rightarrow>
               (case bucketNames (Buckets result) of
                  None \<Rightarrow> (NilDeref, w2)
                | Some names \<Rightarrow> (Ok names, w2))))"

subsection \<open>AbortFailedMultipartUploadsInBucket\<close>

definition abort_input :: "string \<Rightarrow> MultipartUpload \<Rightarrow> AbortMultipartUploadInput" where
  "abort_input bucketName upload =
     \<lparr>amu_Bucket = Some bucketName, amu_Key = Key upload, amu_UploadId = UploadId upload\<rparr>"

text \<open>
  The loop over \<^verbatim>\<open>uploads.Uploads\<close>. Reading the fields of a nil upload panics before
  any call. On an error of the abort call the function returns at once; building the
  message dereferences the upload id and the key, which panics when one of them is nil.
\<close>

fun abort_loop :: "'s S3API \<Rightarrow> string \<Rightarrow> MultipartUpload option list \<Rightarrow> 's world \<Rightarrow> unit res \<times> 's world" where
  "abort_loop s3Svc bucketName [] w = (Ok (), w)"
| "abort_loop s3Svc bucketName (None # rest) w = (NilDeref, w)"
| "abort_loop s3Svc bucketName (Some upload # rest) w =
     (case do_AbortMultipartUpload s3Svc (abort_input bucketName upload) w of
        (Some err, w') \<Rightarrow>
          (case UploadId upload of
             None \<Rightarrow> (NilDeref, w')
           | Some uid \<Rightarrow>
               (case Key upload of
                  None \<Rightarrow> (NilDeref, w')
                | Some k \<Rightarrow>
                    (Err (Errorf ''error aborting multipart upload %s for key %s: %v''
                            [uid, k] (Lib err)), w')))
      | (None, w') \<Rightarrow> abort_loop s3Svc bucketName rest w')"

definition list_input :: "string \<Rightarrow> ListMultipartUploadsInput" where
  "list_input bucketName =
     \<lparr>lmu_Bucket = Some bucketName, lmu_KeyMarker = None, lmu_UploadIdMarker = None\<rparr>"

definition AbortFailedMultipartUploadsInBucket ::
  "'s s3_New \<Rightarrow> session \<Rightarrow> string \<Rightarrow> 's world \<Rightarrow> unit res \<times> 's world" where
  "AbortFailedMultipartUploadsInBucket new sess bucketName w =
     (case do_New new sess None w of
        (s3Svc, w1) \<Rightarrow>
          (case do_ListMultipartUploads s3Svc (list_input bucketName) w1 of
             (Inl err, w2) \<Rightarrow>
               (Err (Errorf ''error listing multipart uploads for bucket %s: %v''
                       [bucketName] (Lib err)), w2)
           | (Inr uploads, w2) \<Rightarrow> abort_loop s3Svc bucketName (Uploads uploads) w2))"

subsection \<open>AbortFailedMultipartUploadsInAllBuckets\<close>

text \<open>
  The loop over \<^verbatim>\<open>buckets.Buckets\<close>: the name of each bucket is dereferenced to call the
  per-bucket function, and the first error returned by it ends the loop.
\<close>

fun all_buckets_loop :: "'s s3_New \<Rightarrow> session \<Rightarrow> Bucket option list \<Rightarrow> 's world \<Rightarrow> unit res \<times> 's world" where
  "all_buckets_loop new sess [] w = (Ok (), w)"
| "all_buckets_loop new sess (None # rest) w = (NilDeref, w)"
| "all_buckets_loop new sess (Some bucket # rest) w =
     (case Name bucket of
        None \<Rightarrow> (NilDeref, w)
      | Some name \<Rightarrow>
          (case AbortFailedMultipartUploadsInBucket new sess name w of
             (Ok u, w') \<Rightarrow> all_buckets_loop new sess rest w'
           | (Err err, w') \<Rightarrow>
               (Err (Errorf ''error aborting multipart uploads in bucket %s: %v'' [name] err), w')
           | (NilDeref, w') \<Rightarrow> (NilDeref, w')))"

definition AbortFailedMultipartUploadsInAllBuckets ::
  "'s s3_New \<Rightarrow> session \<Rightarrow> 's world \<Rightarrow> unit res \<times> 's world" where
  "AbortFailedMultipartUploadsInAllBuckets new sess w =
     (case do_New new sess None w of
        (s3Svc, w1) \<Rightarrow>
          (case do_ListBuckets s3Svc w1 of
             (Inl err, w2) \<Rightarrow> (Err (Errorf ''error listing buckets: %v'' [] (Lib err)), w2)
           | (Inr buckets, w2) \<Rightarrow> all_buckets_loop new sess (Buckets buckets) w2))"

section \<open>The other collaborators\<close>

text \<open>
  Besides the storage client the program calls: the loader of the shared configuration
  and its credentials provider, the constructor of a session from a profile name, the
  parser of the ini file \<^verbatim>\<open>~/.aws/config\<close> (the sections in the parser's order, each
  with its name and with the string the parser gives for the section's key
  \<^verbatim>\<open>region\<close>) and the interactive selection prompt (a label and the items on offer). They
  belong to libraries, so they are fields of the environment. The function
  \<^verbatim>\<open>CreateAWSSessionWithCredentials\<close> is called by package main and defined nowhere in
  the sources; it is a field of the environment as well. Each call is logged.
\<close>

record 's env =
  s3New :: "'s s3_New"
  LoadDefaultConfig :: "string \<Rightarrow> lib_error + aws_config"
  Retrieve :: "aws_config \<Rightarrow> lib_error + credentials"
  CreateAWSSessionWithCredentials :: "string \<Rightarrow> credentials \<Rightarrow> lib_error + session"
  NewSessionWithOptions :: "string \<Rightarrow> lib_error + session"
  ini_Load :: "lib_error + (string \<times> string) list"
  prompt_Run :: "string \<Rightarrow> string list \<Rightarrow> lib_error + string"

definition do_LoadDefaultConfig :: "'s env \<Rightarrow> string \<Rightarrow> 's world \<Rightarrow> (lib_error + aws_config) \<times> 's world" where
  "do_LoadDefaultConfig env p w = (LoadDefaultConfig env p, logged (CallLoadDefaultConfig p) w)"

definition do_Retrieve :: "'s env \<Rightarrow> aws_config \<Rightarrow> 's world \<Rightarrow> (lib_error + credentials) \<times> 's world" where
  "do_Retrieve env cfg w = (Retrieve env cfg, logged (CallRetrieve cfg) w)"

definition do_CreateAWSSessionWithCredentials ::
  "'s env \<Rightarrow> string \<Rightarrow> credentials \<Rightarrow> 's world \<Rightarrow> (lib_error + session) \<times> 's world" where
  "do_CreateAWSSessionWithCredentials env p c w =
     (CreateAWSSessionWithCredentials env p c, logged (CallCreateAWSSessionWithCredentials p c) w)"

definition do_NewSessionWithOptions :: "'s env \<Rightarrow> string \<Rightarrow> 's world \<Rightarrow> (lib_error + session) \<times> 's world" where
  "do_NewSessionWithOptions env p w = (NewSessionWithOptions env p, logged (CallNewSessionWithOptions p) w)"

definition do_ini_Load :: "'s env \<Rightarrow> 's world \<Rightarrow> (lib_error + (string \<times> string) list) \<times> 's world" where
  "do_ini_Load env w = (ini_Load env, logged CallIniLoad w)"

definition do_prompt_Run :: "'s env \<Rightarrow> string \<Rightarrow> string list \<Rightarrow> 's world \<Rightarrow> (lib_error + string) \<times> 's world" where
  "do_prompt_Run env label items w = (prompt_Run env label items, logged (CallPromptRun label items) w)"

subsection \<open>LoadAWSConfigForProfile and GetCredentialsForProfile (package s3Access)\<close>

text \<open>
  The context argument of the two functions is only handed on to the library; the call
  sites in package main pass the profile alone. The model leaves the context out.
\<close>

definition LoadAWSConfigForProfile :: "'s env \<Rightarrow> string \<Rightarrow> 's world \<Rightarrow> aws_config res \<times> 's world" where
  "LoadAWSConfigForProfile env profile0 w =
     (let profile = (if profile0 = [] then ''default'' else profile0) in
      case do_LoadDefaultConfig env profile w of
        (Inl err, w1) \<Rightarrow>
          (Err (Errorf ''failed to load AWS config for profile %s: %v'' [profile] (Lib err)), w1)
      | (Inr cfg, w1) \<Rightarrow> (Ok cfg, w1))"

definition GetCredentialsForProfile :: "'s env \<Rightarrow> string \<Rightarrow> 's world \<Rightarrow> credentials res \<times> 's world" where
  "GetCredentialsForProfile env profile w =
     (case LoadAWSConfigForProfile env profile w of
        (Err err, w1) \<Rightarrow> (Err err, w1)
      | (NilDeref, w1) \<Rightarrow> (NilDeref, w1)
      | (Ok cfg, w1) \<Rightarrow>
          (case do_Retrieve env cfg w1 of
             (Inl err, w2) \<Rightarrow>
               (Err (Errorf ''failed to retrieve credentials for profile %s: %v'' [profile] (Lib err)), w2)
           | (Inr creds, w2) \<Rightarrow> (Ok creds, w2)))"

section \<open>Package config\<close>

text \<open>
  The struct \<^verbatim>\<open>aws.ProfileConfig\<close> is used with the fields \<^verbatim>\<open>Name\<close> and \<^verbatim>\<open>Region\<close>; its
  declaration is not among the sources. A section gives the profile with the section's
  name and, as region, the string of \<^verbatim>\<open>section.Key("region").String()\<close>; how the parser
  finds that string is the parser's business.
\<close>

record ProfileConfig =
  pc_Name :: string
  pc_Region :: string

definition section_profile :: "string \<times> string \<Rightarrow> ProfileConfig" where
  "section_profile sec = \<lparr>pc_Name = fst sec, pc_Region = snd sec\<rparr>"

definition ReadAWSConfigFile :: "'s env \<Rightarrow> 's world \<Rightarrow> ProfileConfig list res \<times> 's world" where
  "ReadAWSConfigFile env w =
     (case do_ini_Load env w of
        (Inl err, w1) \<Rightarrow> (Err (Lib err), w1)
      | (Inr cfg, w1) \<Rightarrow> (Ok (map section_profile cfg), w1))"

definition RetrieveConfiguredProfiles :: "'s env \<Rightarrow> 's world \<Rightarrow> string list res \<times> 's world" where
  "RetrieveConfiguredProfiles env w =
     (case ReadAWSConfigFile env w of
        (Err err, w1) \<Rightarrow> (Err err, w1)
      | (NilDeref, w1) \<Rightarrow> (NilDeref, w1)
      | (Ok profiles, w1) \<Rightarrow> (Ok (map pc_Name profiles), w1))"

definition EstablishConnectionUsingProfile :: "'s env \<Rightarrow> string \<Rightarrow> 's world \<Rightarrow> session res \<times> 's world" where
  "EstablishConnectionUsingProfile env profileName w =
     (case do_NewSessionWithOptions env profileName w of
        (Inl err, w1) \<Rightarrow> (Err (Lib err), w1)
      | (Inr sess, w1) \<Rightarrow> (Ok sess, w1))"

section \<open>Package main\<close>

text \<open>
  The package's global variables, with the defaults the flag declarations of
  \<^verbatim>\<open>init\<close> give them.
\<close>

record globals =
  discoverFlag :: bool
  profileFlag :: string
  helpFlag :: bool

definition init_globals :: globals where
  "init_globals = \<lparr>discoverFlag = False, profileFlag = [], helpFlag = False\<rparr>"

definition printed :: "event \<Rightarrow> 's world \<Rightarrow> 's world" where
  "printed e w = logged e w"

subsection \<open>GetProfileChoice and GetBucketChoice\<close>

definition GetProfileChoice :: "'s env \<Rightarrow> 's world \<Rightarrow> string res \<times> 's world" where
  "GetProfileChoice env w =
     (case RetrieveConfiguredProfiles env w of
        (Err err, w1) \<Rightarrow> (Err err, w1)
      | (NilDeref, w1) \<Rightarrow> (NilDeref, w1)
      | (Ok profiles, w1) \<Rightarrow>
          (case do_prompt_Run env ''Please select a profile'' profiles w1 of
             (Inl err, w2) \<Rightarrow> (Err (Lib err), w2)
           | (Inr result, w2) \<Rightarrow> (Ok result, w2)))"

definition GetBucketChoice :: "'s env \<Rightarrow> string \<Rightarrow> 's world \<Rightarrow> string res \<times> 's world" where
  "GetBucketChoice env profile w =
     (case EstablishConnectionUsingProfile env profile w of
        (Err err, w1) \<Rightarrow> (Err err, w1)
      | (NilDeref, w1) \<Rightarrow> (NilDeref, w1)
      | (Ok session, w1) \<Rightarrow>
          (case ListS3Buckets (s3New env) session w1 of
             (Err err, w2) \<Rightarrow> (Err err, w2)
           | (NilDeref, w2) \<Rightarrow> (NilDeref, w2)
           | (Ok buckets, w2) \<Rightarrow>
               (case do_prompt_Run env ''Please select a bucket'' buckets w2 of
                  (Inl err, w3) \<Rightarrow> (Err (Lib err), w3)
                | (Inr result, w3) \<Rightarrow> (Ok result, w3))))"

subsection \<open>menu\<close>

text \<open>
  One pass through the body of the endless \<^verbatim>\<open>for\<close> loop of \<^verbatim>\<open>menu\<close>. The result says
  how the pass ends: \<open>Continue\<close> when the loop goes round again (a \<^verbatim>\<open>continue\<close>, or the end
  of the \<^verbatim>\<open>switch\<close>), \<open>Return\<close> when \<^verbatim>\<open>menu\<close> returns, \<open>Panics\<close> on a nil dereference in
  a callee. \<^verbatim>\<open>menu\<close> reads the global \<^verbatim>\<open>profileFlag\<close> and assigns no global.
\<close>

datatype flow = Continue | Return | Panics

definition choices :: "string list" where
  "choices =
     [''Select the profile and bucket to expire'',
      ''Select the profile and all buckets to expire'',
      ''Expire all profiles and all buckets'',
      ''Exit'']"

definition expire_one_bucket :: "'s env \<Rightarrow> globals \<Rightarrow> 's world \<Rightarrow> flow \<times> 's world" where
  "expire_one_bucket env g w =
     (case GetProfileChoice env w of
        (Err err, w1) \<Rightarrow>
          (Continue, printed (Printf ''Error selecting profile: %v\<newline>'' [E err]) w1)
      | (NilDeref, w1) \<Rightarrow> (Panics, w1)
      | (Ok profile, w1) \<Rightarrow>
          (case GetCredentialsForProfile env (profileFlag g) w1 of
             (Err credErr, w2) \<Rightarrow>
               (Return, printed (Printf ''Error fetching credentials for profile %s: %v\<newline>''
                                   [S (profileFlag g), E credErr]) w2)
           | (NilDeref, w2) \<Rightarrow> (Panics, w2)
           | (Ok credentials, w2) \<Rightarrow>
               (case do_CreateAWSSessionWithCredentials env (profileFlag g) credentials w2 of
                  (Inl err, w3) \<Rightarrow>
                    (Return, printed (Printf ''Error creating session: %v\<newline>'' [E (Lib err)]) w3)
                | (Inr sess, w3) \<Rightarrow>
                    (case GetBucketChoice env profile w3 of
                       (Err err, w4) \<Rightarrow>
                         (Continue, printed (Printf ''Error selecting bucket: %v\<newline>'' [E err]) w4)
                     | (NilDeref, w4) \<Rightarrow> (Panics, w4)
                     | (Ok bucket, w4) \<Rightarrow>
                         (let w5 = printed (Printf ''You chose profile: %s and bucket: %s\<newline>''
                                              [S profile, S bucket]) w4 in
                          case AbortFailedMultipartUploadsInBucket (s3New env) sess bucket w5 of
                            (Err err, w6) \<Rightarrow>
                              (Continue,
                               printed (Printf ''Error occurred expiring multipart uploads in bucket %v, %v\<newline>''
                                          [S bucket, E err]) w6)
                          | (NilDeref, w6) \<Rightarrow> (Panics, w6)
                          | (Ok u, w6) \<Rightarrow> (Continue, w6))))))"

definition expire_profile_buckets :: "'s env \<Rightarrow> 's world \<Rightarrow> flow \<times> 's world" where
  "expire_profile_buckets env w =
     (case GetProfileChoice env w of
        (Err err, w1) \<Rightarrow>
          (Continue, printed (Printf ''Error selecting profile: %v\<newline>'' [E err]) w1)
      | (NilDeref, w1) \<Rightarrow> (Panics, w1)
      | (Ok profile, w1) \<Rightarrow>
          (Continue,
           printed (Printf ''You chose profile: %s. All buckets under this profile will be expired.\<newline>''
                      [S profile]) w1))"

definition menu_pass :: "'s env \<Rightarrow> globals \<Rightarrow> 's world \<Rightarrow> flow \<times> 's world" where
  "menu_pass env g w =
     (case do_prompt_Run env ''Please choose an option'' choices w of
        (Inl err, w1) \<Rightarrow> (Return, printed (Printf ''Prompt failed %v\<newline>'' [E (Lib err)]) w1)
      | (Inr result, w1) \<Rightarrow>
          if result = ''Select the profile and bucket to expire'' then expire_one_bucket env g w1
          else if result = ''Select the profile and all buckets to expire'' then expire_profile_buckets env w1
          else if result = ''Expire all profiles and all buckets'' then (Continue, w1)
          else if result = ''Exit'' then (Return, printed (Println [S ''Exiting...'']) w1)
          else (Continue, w1))"

subsection \<open>main\<close>

text \<open>
  \<^verbatim>\<open>main\<close> looks at the raw argument vector \<^verbatim>\<open>os.Args\<close> (element 0 is the program name)
  before it hands over to the command-line library. \<^verbatim>\<open>rootCmd.Execute\<close>, the library's
  parsing of the flags followed by the command's \<^verbatim>\<open>Run\<close>, is the parameter \<open>execute\<close>;
  the call of it is logged with the argument vector it reads. The result is the exit
  status of the process.
\<close>

definition profile_alone_message :: string where
  "profile_alone_message =
     ''Error: --profile/-p flag can'' @ [CHR 0x27] @ ''t be used alone. Use it with --discover/-d.''"

definition main :: "(string list \<Rightarrow> 's world \<Rightarrow> go_error option \<times> 's world) \<Rightarrow> string list \<Rightarrow> 's world \<Rightarrow> nat \<times> 's world" where
  "main execute osArgs w =
     (if 2 \<le> length osArgs \<and> (osArgs ! 1 = ''--profile'' \<or> osArgs ! 1 = ''-p'')
      then (0, printed (Println [S profile_alone_message]) w)
      else
        (case execute osArgs (logged (CallRootCmdExecute osArgs) w) of
           (Some err, w1) \<Rightarrow> (1, printed (Println [E err]) w1)
         | (None, w1) \<Rightarrow> (0, w1)))"

section \<open>The client library's retryer\<close>





section \<open>A simulated provider\<close>

text \<open>
  A small in-memory object store to run the program against. It holds the bucket names,
  the in-progress multipart uploads of every bucket in listing order and the page size
  of a listing response; uploads an abort removes are gone from later listings. Errors
  are injected by bucket name (for a listing) and by upload id (for an abort); an
  injected error is the answer to every such request. A listing request with markers
  resumes after the upload the markers name. Taken as a client, the store answers each
  call with one request.
\<close>

record sim =
  sim_buckets :: "string list"
  sim_uploads :: "(string \<times> MultipartUpload) list"
  sim_page :: nat
  sim_list_fault :: "(string \<times> lib_error) list"
  sim_abort_fault :: "(string \<times> lib_error) list"

fun after_marker :: "string option \<Rightarrow> string option \<Rightarrow> MultipartUpload list \<Rightarrow> MultipartUpload list" where
  "after_marker km um [] = []"
| "after_marker km um (u # us) =
     (if Key u = km \<and> UploadId u = um then us else after_marker km um us)"

definition sim_in_bucket :: "sim \<Rightarrow> string \<Rightarrow> MultipartUpload list" where
  "sim_in_bucket st b = map snd (filter (\<lambda>bu. fst bu = b) (sim_uploads st))"

definition sim_ListBuckets :: "sim \<Rightarrow> (lib_error + ListBucketsOutput) \<times> sim" where
  "sim_ListBuckets st = (Inr \<lparr>Buckets = map (\<lambda>n. Some \<lparr>Name = Some n\<rparr>) (sim_buckets st)\<rparr>, st)"

definition sim_ListMultipartUploads ::
  "ListMultipartUploadsInput \<Rightarrow> sim \<Rightarrow> (lib_error + ListMultipartUploadsOutput) \<times> sim" where
  "sim_ListMultipartUploads inp st =
     (case lmu_Bucket inp of
        None \<Rightarrow> (Inl (OtherError ''missing Bucket''), st)
      | Some b \<Rightarrow>
          (case map_of (sim_list_fault st) b of
             Some e \<Rightarrow> (Inl e, st)
           | None \<Rightarrow>
               if b \<notin> set (sim_buckets st) then (Inl NoSuchBucket, st)
               else
                 let rest = (if lmu_KeyMarker inp = None \<and> lmu_UploadIdMarker inp = None
                             then sim_in_bucket st b
                             else after_marker (lmu_KeyMarker inp) (lmu_UploadIdMarker inp)
                                    (sim_in_bucket st b));
                     page = take (sim_page st) rest;
                     more = (sim_page st < length rest)
                 in (Inr \<lparr>Uploads = map Some page,
                          IsTruncated = more,
                          NextKeyMarker =
                            (case rev page of [] \<Rightarrow> None | u # us \<Rightarrow> if more then Key u else None),
                          NextUploadIdMarker =
                            (case rev page of [] \<Rightarrow> None | u # us \<Rightarrow> if more then UploadId u else None)\<rparr>,
                     st)))"

definition sim_matches :: "AbortMultipartUploadInput \<Rightarrow> string \<times> MultipartUpload \<Rightarrow> bool" where
  "sim_matches inp bu =
     (amu_Bucket inp = Some (fst bu) \<and> amu_Key inp = Key (snd bu) \<and> amu_UploadId inp = UploadId (snd bu))"

definition sim_AbortMultipartUpload :: "AbortMultipartUploadInput \<Rightarrow> sim \<Rightarrow> lib_error option \<times> sim" where
  "sim_AbortMultipartUpload inp st =
     (case amu_UploadId inp of
        None \<Rightarrow> (Some (OtherError ''missing UploadId''), st)
      | Some uid \<Rightarrow>
          (case map_of (sim_abort_fault st) uid of
             Some e \<Rightarrow> (Some e, st)
           | None \<Rightarrow>
               if filter (sim_matches inp) (sim_uploads st) = [] then (Some NoSuchUpload, st)
               else (None, st\<lparr>sim_uploads := filter (\<lambda>bu. \<not> sim_matches inp bu) (sim_uploads st)\<rparr>)))"

definition sim_api :: "sim S3API" where
  "sim_api = \<lparr>ListBuckets = sim_ListBuckets,
              ListMultipartUploads = sim_ListMultipartUploads,
              AbortMultipartUpload = sim_AbortMultipartUpload\<rparr>"

definition sim_New :: "sim s3_New" where
  "sim_New sess region = sim_api"

definition mk_upload :: "string \<Rightarrow> string \<Rightarrow> int \<Rightarrow> MultipartUpload" where
  "mk_upload k uid t = \<lparr>Key = Some k, UploadId = Some uid, Initiated = Some t\<rparr>"

text \<open>
  The simulated collaborators: every profile name loads, its credentials and sessions
  are tagged with the name they were made from, the configuration file lists three
  sections, and the user answers each prompt by its label.
\<close>

definition sim_env :: "(string \<Rightarrow> string list \<Rightarrow> lib_error + string) \<Rightarrow> sim env" where
  "sim_env answers =
     \<lparr>s3New = sim_New,
      LoadDefaultConfig = (\<lambda>p. Inr (AwsConfig p)),
      Retrieve = (\<lambda>cfg. case cfg of AwsConfig p \<Rightarrow> Inr (Credentials p)),
      CreateAWSSessionWithCredentials =
        (\<lambda>p c. case c of Credentials cp \<Rightarrow> Inr (Session (''session from the credentials of '' @ cp))),
      NewSessionWithOptions = (\<lambda>p. Inr (Session (''session of '' @ p))),
      ini_Load = Inr [(''DEFAULT'', ''''), (''default'', ''eu-west-1''), (''prod'', ''ap-southeast-2'')],
      prompt_Run = answers\<rparr>"

text \<open>A provider whose \<^verbatim>\<open>ListBuckets\<close> answers with a fixed response and nothing else works.\<close>

definition fixed_buckets_api :: "ListBucketsOutput \<Rightarrow> unit S3API" where
  "fixed_buckets_api out =
     \<lparr>ListBuckets = (\<lambda>s. (Inr out, s)),
      ListMultipartUploads = (\<lambda>inp s. (Inl AccessDenied, s)),
      AbortMultipartUpload = (\<lambda>inp s. (Some AccessDenied, s))\<rparr>"

section \<open>Vocabulary of the theorems\<close>

text \<open>A bucket entry is named when neither the entry nor its name is nil.\<close>

definition named :: "Bucket option \<Rightarrow> bool" where
  "named b = (case b of None \<Rightarrow> False | Some b' \<Rightarrow> Name b' \<noteq> None)"

definition name_of :: "Bucket option \<Rightarrow> string" where
  "name_of b = the (Name (the b))"

definition bucket_named :: "string \<Rightarrow> Bucket option" where
  "bucket_named n = Some \<lparr>Name = Some n\<rparr>"

text \<open>
  The provider answers every abort of the uploads \<open>us\<close> of bucket \<open>b\<close>, issued one after
  the other from state \<open>s\<close>, without an error; and the state it is in afterwards.
\<close>

fun aborts_succeed :: "'s S3API \<Rightarrow> string \<Rightarrow> MultipartUpload list \<Rightarrow> 's \<Rightarrow> bool" where
  "aborts_succeed api b [] s = True"
| "aborts_succeed api b (u # us) s =
     (case AbortMultipartUpload api (abort_input b u) s of
        (None, s') \<Rightarrow> aborts_succeed api b us s'
      | (Some e, s') \<Rightarrow> False)"

fun after_aborts :: "'s S3API \<Rightarrow> string \<Rightarrow> MultipartUpload list \<Rightarrow> 's \<Rightarrow> 's" where
  "after_aborts api b [] s = s"
| "after_aborts api b (u # us) s =
     after_aborts api b us (snd (AbortMultipartUpload api (abort_input b u) s))"

definition abort_calls :: "string \<Rightarrow> MultipartUpload list \<Rightarrow> event list" where
  "abort_calls b us = map (\<lambda>u. CallAbortMultipartUpload (abort_input b u)) us"

fun is_abort_call :: "event \<Rightarrow> bool" where
  "is_abort_call (CallAbortMultipartUpload inp) = True"
| "is_abort_call e = False"

section \<open>The abort loop, call by call\<close>

lemma do_Abort_eq:
  "do_AbortMultipartUpload api inp (s, log) =
     (fst (AbortMultipartUpload api inp s), (snd (AbortMultipartUpload api inp s), log @ [CallAbortMultipartUpload inp]))"
  by (simp add: do_AbortMultipartUpload_def split: prod.splits)

lemma abort_loop_success:
  "aborts_succeed api b us s \<Longrightarrow>
     abort_loop api b (map Some us) (s, log) = (Ok (), (after_aborts api b us s, log @ abort_calls b us))"
proof (induction us arbitrary: s log)
  case Nil
  show ?case by (simp add: abort_calls_def)
next
  case (Cons u us)
  obtain r s' where a: "AbortMultipartUpload api (abort_input b u) s = (r, s')"
    by (cases "AbortMultipartUpload api (abort_input b u) s")
  with Cons.prems have r: "r = None" and rest: "aborts_succeed api b us s'"
    by (auto split: option.splits)
  from Cons.IH [OF rest] a r show ?case
    by (simp add: do_Abort_eq abort_calls_def)
qed

lemma abort_loop_failure:
  assumes "aborts_succeed api b pre s"
    and "AbortMultipartUpload api (abort_input b u) (after_aborts api b pre s) = (Some e, s2)"
    and "UploadId u = Some uid" and "Key u = Some k"
  shows "abort_loop api b (map Some (pre @ u # post)) (s, log) =
           (Err (Errorf ''error aborting multipart upload %s for key %s: %v'' [uid, k] (Lib e)),
            (s2, log @ abort_calls b (pre @ [u])))"
  using assms
proof (induction pre arbitrary: s log)
  case Nil
  then show ?case by (simp add: do_Abort_eq abort_calls_def)
next
  case (Cons p pre)
  obtain r s' where a: "AbortMultipartUpload api (abort_input b p) s = (r, s')"
    by (cases "AbortMultipartUpload api (abort_input b p) s")
  with Cons.prems have r: "r = None" and rest: "aborts_succeed api b pre s'"
    by (auto split: option.splits)
  from Cons.prems a have next_fail:
    "AbortMultipartUpload api (abort_input b u) (after_aborts api b pre s') = (Some e, s2)"
    by simp
  from Cons.IH [OF rest next_fail Cons.prems(3) Cons.prems(4)] a r show ?case
    by (simp add: do_Abort_eq abort_calls_def)
qed

lemma abort_loop_log:
  "\<exists>n\<le>length ups. snd (snd (abort_loop api b ups (s, log))) =
       log @ map (\<lambda>u. CallAbortMultipartUpload (abort_input b (the u))) (take n ups)
     \<and> (fst (abort_loop api b ups (s, log)) = Ok () \<longrightarrow> n = length ups)"
proof (induction ups arbitrary: s log)
  case Nil
  show ?case by simp
next
  case (Cons up ups)
  show ?case
  proof (cases up)
    case None
    then show ?thesis by (intro exI [of _ 0]) simp
  next
    case (Some u)
    obtain r s' where a: "AbortMultipartUpload api (abort_input b u) s = (r, s')"
      by (cases "AbortMultipartUpload api (abort_input b u) s")
    show ?thesis
    proof (cases r)
      case None
      from Cons.IH [of s' "log @ [CallAbortMultipartUpload (abort_input b u)]"]
      obtain n where n: "n \<le> length ups"
        and l: "snd (snd (abort_loop api b ups (s', log @ [CallAbortMultipartUpload (abort_input b u)]))) =
                 (log @ [CallAbortMultipartUpload (abort_input b u)]) @
                 map (\<lambda>u. CallAbortMultipartUpload (abort_input b (the u))) (take n ups)"
        and o: "fst (abort_loop api b ups (s', log @ [CallAbortMultipartUpload (abort_input b u)])) = Ok ()
                  \<longrightarrow> n = length ups"
        by blast
      show ?thesis
        using n l o Some None a by (intro exI [of _ "Suc n"]) (simp add: do_Abort_eq)
    next
      case (Some e)
      with \<open>up = Some u\<close> a show ?thesis
        by (intro exI [of _ 1]) (simp add: do_Abort_eq split: option.splits)
    qed
  qed
qed

lemma abort_loop_prefix:
  "\<exists>n\<le>length us.
     snd (snd (abort_loop api b (map Some us) (s, log))) = log @ abort_calls b (take n us) \<and>
     (fst (abort_loop api b (map Some us) (s, log)) = Ok () \<longrightarrow> n = length us) \<and>
     (fst (abort_loop api b (map Some us) (s, log)) \<noteq> Ok () \<longrightarrow>
        0 < n \<and>
        (fst (abort_loop api b (map Some us) (s, log)) = NilDeref \<or>
         (\<exists>uid k e. UploadId (us ! (n - 1)) = Some uid \<and> Key (us ! (n - 1)) = Some k \<and>
            fst (abort_loop api b (map Some us) (s, log)) =
              Err (Errorf ''error aborting multipart upload %s for key %s: %v'' [uid, k] (Lib e)))))"
proof (induction us arbitrary: s log)
  case Nil
  show ?case by (simp add: abort_calls_def)
next
  case (Cons u us)
  obtain r s' where a: "AbortMultipartUpload api (abort_input b u) s = (r, s')"
    by (cases "AbortMultipartUpload api (abort_input b u) s")
  show ?case
  proof (cases r)
    case None
    let ?log' = "log @ [CallAbortMultipartUpload (abort_input b u)]"
    let ?run = "abort_loop api b (map Some us) (s', ?log')"
    from Cons.IH [of s' ?log']
    obtain n where n: "n \<le> length us"
      and l: "snd (snd ?run) = ?log' @ abort_calls b (take n us)"
      and o: "fst ?run = Ok () \<longrightarrow> n = length us"
      and f: "fst ?run \<noteq> Ok () \<longrightarrow> 0 < n \<and> (fst ?run = NilDeref \<or>
         (\<exists>uid k e. UploadId (us ! (n - 1)) = Some uid \<and> Key (us ! (n - 1)) = Some k \<and>
            fst ?run = Err (Errorf ''error aborting multipart upload %s for key %s: %v'' [uid, k] (Lib e))))"
      by blast
    have step: "abort_loop api b (map Some (u # us)) (s, log) = ?run"
      using a None by (simp add: do_Abort_eq)
    show ?thesis
    proof (intro exI [of _ "Suc n"] conjI impI)
      show "Suc n \<le> length (u # us)" using n by simp
      show "snd (snd (abort_loop api b (map Some (u # us)) (s, log))) = log @ abort_calls b (take (Suc n) (u # us))"
        using l step by (simp add: abort_calls_def)
      show "Suc n = length (u # us)" if "fst (abort_loop api b (map Some (u # us)) (s, log)) = Ok ()"
        using that o step by simp
      show "0 < Suc n" by simp
      show "fst (abort_loop api b (map Some (u # us)) (s, log)) = NilDeref \<or>
         (\<exists>uid k e. UploadId ((u # us) ! (Suc n - 1)) = Some uid \<and> Key ((u # us) ! (Suc n - 1)) = Some k \<and>
            fst (abort_loop api b (map Some (u # us)) (s, log)) =
              Err (Errorf ''error aborting multipart upload %s for key %s: %v'' [uid, k] (Lib e)))"
        if "fst (abort_loop api b (map Some (u # us)) (s, log)) \<noteq> Ok ()"
      proof -
        from that step have nz: "fst ?run \<noteq> Ok ()" by simp
        with f have pos: "0 < n" by blast
        then have "(u # us) ! (Suc n - 1) = us ! (n - 1)" by (cases n) simp_all
        with f nz step show ?thesis by simp
      qed
    qed
  next
    case (Some e)
    with a show ?thesis
      by (intro exI [of _ 1]) (auto simp: do_Abort_eq abort_calls_def split: option.splits)
  qed
qed

lemma AbortInBucket_listed:
  assumes "ListMultipartUploads (new sess None) (list_input b) s = (Inr out, s1)"
  shows "AbortFailedMultipartUploadsInBucket new sess b (s, log) =
           abort_loop (new sess None) b (Uploads out)
             (s1, log @ [New sess None, CallListMultipartUploads (list_input b)])"
  using assms
  by (simp add: AbortFailedMultipartUploadsInBucket_def do_New_def logged_def
        do_ListMultipartUploads_def)

lemma AbortInBucket_listing_fails:
  assumes "ListMultipartUploads (new sess None) (list_input b) s = (Inl e, s1)"
  shows "AbortFailedMultipartUploadsInBucket new sess b (s, log) =
           (Err (Errorf ''error listing multipart uploads for bucket %s: %v'' [b] (Lib e)),
            (s1, log @ [New sess None, CallListMultipartUploads (list_input b)]))"
  using assms
  by (simp add: AbortFailedMultipartUploadsInBucket_def do_New_def logged_def
        do_ListMultipartUploads_def)

section \<open>ListS3Buckets returns the names of the response\<close>

lemma bucketNames_named:
  "list_all named bs \<Longrightarrow> bucketNames bs = Some (map name_of bs)"
proof (induction bs)
  case Nil
  show ?case by simp
next
  case (Cons b bs)
  from Cons.prems obtain b' n where b: "b = Some b'" and n: "Name b' = Some n"
    by (auto simp: named_def split: option.splits)
  from Cons have "bucketNames bs = Some (map name_of bs)" by simp
  with b n show ?case by (simp add: name_of_def)
qed

lemma bucketNames_unnamed:
  "\<not> list_all named bs \<Longrightarrow> bucketNames bs = None"
proof (induction bs rule: bucketNames.induct)
  case 1
  then show ?case by simp
next
  case (2 bs)
  show ?case by simp
next
  case (3 b bs)
  then show ?case by (cases "Name b") (auto simp: named_def split: option.splits)
qed

text \<open>
  C10. When the provider answers \<^verbatim>\<open>ListBuckets\<close> with a response in which every bucket
  entry has a non-nil name, \<open>ListS3Buckets\<close> returns exactly the names of the response,
  in the response's order and of the same length. When some entry has no name, the
  dereference panics: the non-nil precondition is what makes it safe.
\<close>

theorem ListS3Buckets_names:
  assumes "ListBuckets (new sess (Some ''ap-southeast-2'')) s = (Inr result, s')"
  shows "(list_all named (Buckets result) \<longrightarrow>
            fst (ListS3Buckets new sess (s, log)) = Ok (map name_of (Buckets result)) \<and>
            length (map name_of (Buckets result)) = length (Buckets result) \<and>
            (\<forall>i < length (Buckets result).
               Buckets result ! i = Some \<lparr>Name = Some (map name_of (Buckets result) ! i)\<rparr>)) \<and>
         (\<not> list_all named (Buckets result) \<longrightarrow>
            fst (ListS3Buckets new sess (s, log)) = NilDeref)"
proof (intro conjI impI allI)
  assume ok: "list_all named (Buckets result)"
  with assms show "fst (ListS3Buckets new sess (s, log)) = Ok (map name_of (Buckets result))"
    by (simp add: ListS3Buckets_def do_New_def do_ListBuckets_def logged_def bucketNames_named)
  show "length (map name_of (Buckets result)) = length (Buckets result)" by simp
  fix i assume i: "i < length (Buckets result)"
  with ok have "named (Buckets result ! i)" by (simp add: list_all_length)
  then obtain b n where b: "Buckets result ! i = Some b" and n: "Name b = Some n"
    by (auto simp: named_def split: option.splits)
  from n have "b = \<lparr>Name = Some n\<rparr>" by (cases b) simp
  with b n i show "Buckets result ! i = Some \<lparr>Name = Some (map name_of (Buckets result) ! i)\<rparr>"
    by (simp add: name_of_def)
next
  assume "\<not> list_all named (Buckets result)"
  with assms show "fst (ListS3Buckets new sess (s, log)) = NilDeref"
    by (simp add: ListS3Buckets_def do_New_def do_ListBuckets_def logged_def bucketNames_unnamed)
qed


theorem ListS3Buckets_names_witness:
  "list_all named (Buckets \<lparr>Buckets = [bucket_named ''logs'', bucket_named ''media'']\<rparr>) \<and>
   fst (ListS3Buckets sim_New (Session ''default'')
          (\<lparr>sim_buckets = [''logs'', ''media''], sim_uploads = [], sim_page = 1000,
            sim_list_fault = [], sim_abort_fault = []\<rparr>, [])) = Ok [''logs'', ''media''] \<and>
   \<not> list_all named (Buckets \<lparr>Buckets = [bucket_named ''logs'', Some \<lparr>Name = None\<rparr>]\<rparr>) \<and>
   fst (ListS3Buckets (\<lambda>sess region. fixed_buckets_api \<lparr>Buckets = [bucket_named ''logs'', Some \<lparr>Name = None\<rparr>]\<rparr>)
          (Session ''default'') ((), [])) = NilDeref"
  using ListS3Buckets_names [of sim_New "Session ''default''"
          "\<lparr>sim_buckets = [''logs'', ''media''], sim_uploads = [], sim_page = 1000,
            sim_list_fault = [], sim_abort_fault = []\<rparr>"
          "\<lparr>Buckets = [bucket_named ''logs'', bucket_named ''media'']\<rparr>" _ "[]"]
        ListS3Buckets_names [of "\<lambda>sess region. fixed_buckets_api \<lparr>Buckets = [bucket_named ''logs'', Some \<lparr>Name = None\<rparr>]\<rparr>"
          "Session ''default''" "()" "\<lparr>Buckets = [bucket_named ''logs'', Some \<lparr>Name = None\<rparr>]\<rparr>" "()" "[]"]
  by (simp add: sim_New_def sim_api_def sim_ListBuckets_def bucket_named_def named_def name_of_def
        fixed_buckets_api_def)

section \<open>Running the program on the simulated provider\<close>

lemmas run_defs =
  AbortFailedMultipartUploadsInBucket_def AbortFailedMultipartUploadsInAllBuckets_def
  ListS3Buckets_def do_New_def do_ListBuckets_def do_ListMultipartUploads_def
  do_AbortMultipartUpload_def logged_def list_input_def abort_input_def abort_calls_def

lemmas sim_defs =
  sim_New_def sim_api_def sim_ListBuckets_def sim_ListMultipartUploads_def
  sim_AbortMultipartUpload_def sim_matches_def sim_in_bucket_def mk_upload_def bucket_named_def

lemma abort_input_timestamp [simp]:
  "abort_input b (u\<lparr>Initiated := t\<rparr>) = abort_input b u"
  by (simp add: abort_input_def)

lemma abort_loop_timestamps:
  "abort_loop api b (map (\<lambda>u. Some (u\<lparr>Initiated := t u\<rparr>)) us) w = abort_loop api b (map Some us) w"
proof (induction us arbitrary: w)
  case Nil
  show ?case by simp
next
  case (Cons u us)
  then show ?case
    by (simp split: prod.splits option.splits)
qed

lemma abort_calls_mem:
  "u \<in> set us \<Longrightarrow> CallAbortMultipartUpload (abort_input b u) \<in> set (abort_calls b us)"
  by (auto simp: abort_calls_def)

section \<open>No age policy\<close>

text \<open>
  C1, as the code has it. The function takes no policy and reads no clock. When the
  listing succeeds and the provider accepts the aborts, it returns nil and has issued an
  abort for every upload of the listing response, whatever the upload's initiation
  timestamp: an upload at or past any age threshold is aborted, and so is a newer one.
  The loop's result, the provider's state and the calls issued stay the same when the
  timestamps of the uploads are changed at will.
\<close>

theorem listed_uploads_aborted_whatever_their_age:
  assumes "ListMultipartUploads (new sess None) (list_input b) s = (Inr out, s1)"
    and "Uploads out = map Some us"
    and "aborts_succeed (new sess None) b us s1"
  shows "fst (AbortFailedMultipartUploadsInBucket new sess b (s, log)) = Ok () \<and>
         (\<forall>u\<in>set us.
            CallAbortMultipartUpload \<lparr>amu_Bucket = Some b, amu_Key = Key u, amu_UploadId = UploadId u\<rparr>
              \<in> set (snd (snd (AbortFailedMultipartUploadsInBucket new sess b (s, log))))) \<and>
         (\<forall>t w. abort_loop (new sess None) b (map (\<lambda>u. Some (u\<lparr>Initiated := t u\<rparr>)) us) w =
                abort_loop (new sess None) b (map Some us) w)"
proof -
  let ?log = "log @ [New sess None, CallListMultipartUploads (list_input b)]"
  have run: "AbortFailedMultipartUploadsInBucket new sess b (s, log) =
               (Ok (), (after_aborts (new sess None) b us s1, ?log @ abort_calls b us))"
    using AbortInBucket_listed [of new sess b s out s1 log, OF assms(1)] assms(2)
      abort_loop_success [of "new sess None" b us s1 ?log, OF assms(3)]
    by simp
  have "\<forall>u\<in>set us. CallAbortMultipartUpload (abort_input b u) \<in> set (?log @ abort_calls b us)"
    using abort_calls_mem by fastforce
  with run show ?thesis
    by (simp add: abort_loop_timestamps abort_input_def)
qed

theorem listed_uploads_aborted_whatever_their_age_witness:
  "fst (AbortFailedMultipartUploadsInBucket sim_New (Session ''default'') ''media''
          (\<lparr>sim_buckets = [''media''],
            sim_uploads = [(''media'', mk_upload ''young.bin'' ''id-1'' (1700000000 - 23 * 3600)),
                           (''media'', mk_upload ''old.bin'' ''id-2'' (1700000000 - 24 * 3600))],
            sim_page = 1000, sim_list_fault = [], sim_abort_fault = []\<rparr>, [])) = Ok () \<and>
   CallAbortMultipartUpload \<lparr>amu_Bucket = Some ''media'', amu_Key = Some ''young.bin'', amu_UploadId = Some ''id-1''\<rparr>
     \<in> set (snd (snd (AbortFailedMultipartUploadsInBucket sim_New (Session ''default'') ''media''
          (\<lparr>sim_buckets = [''media''],
            sim_uploads = [(''media'', mk_upload ''young.bin'' ''id-1'' (1700000000 - 23 * 3600)),
                           (''media'', mk_upload ''old.bin'' ''id-2'' (1700000000 - 24 * 3600))],
            sim_page = 1000, sim_list_fault = [], sim_abort_fault = []\<rparr>, [])))) \<and>
   CallAbortMultipartUpload \<lparr>amu_Bucket = Some ''media'', amu_Key = Some ''old.bin'', amu_UploadId = Some ''id-2''\<rparr>
     \<in> set (snd (snd (AbortFailedMultipartUploadsInBucket sim_New (Session ''default'') ''media''
          (\<lparr>sim_buckets = [''media''],
            sim_uploads = [(''media'', mk_upload ''young.bin'' ''id-1'' (1700000000 - 23 * 3600)),
                           (''media'', mk_upload ''old.bin'' ''id-2'' (1700000000 - 24 * 3600))],
            sim_page = 1000, sim_list_fault = [], sim_abort_fault = []\<rparr>, []))))"
  using listed_uploads_aborted_whatever_their_age
    [of sim_New "Session ''default''" "''media''"
        "\<lparr>sim_buckets = [''media''],
            sim_uploads = [(''media'', mk_upload ''young.bin'' ''id-1'' (1700000000 - 23 * 3600)),
                           (''media'', mk_upload ''old.bin'' ''id-2'' (1700000000 - 24 * 3600))],
            sim_page = 1000, sim_list_fault = [], sim_abort_fault = []\<rparr>"
        "\<lparr>Uploads = [Some (mk_upload ''young.bin'' ''id-1'' (1700000000 - 23 * 3600)),
                     Some (mk_upload ''old.bin'' ''id-2'' (1700000000 - 24 * 3600))],
          IsTruncated = False, NextKeyMarker = None, NextUploadIdMarker = None\<rparr>"
        "\<lparr>sim_buckets = [''media''],
            sim_uploads = [(''media'', mk_upload ''young.bin'' ''id-1'' (1700000000 - 23 * 3600)),
                           (''media'', mk_upload ''old.bin'' ''id-2'' (1700000000 - 24 * 3600))],
            sim_page = 1000, sim_list_fault = [], sim_abort_fault = []\<rparr>"
        "[mk_upload ''young.bin'' ''id-1'' (1700000000 - 23 * 3600),
          mk_upload ''old.bin'' ''id-2'' (1700000000 - 24 * 3600)]"
        "[]"]
  by (simp add: sim_defs list_input_def abort_input_def)

text \<open>
  C1 as stated fails: with a minimum age of 24 hours, an upload initiated 23 hours before
  now (here now is 1700000000, in seconds) is newer than the threshold, and the code
  aborts it: the abort call is issued and the upload is gone from the provider.
\<close>

theorem young_upload_is_aborted:
  "(1700000000 :: int) - 24 * 3600 < 1700000000 - 23 * 3600 \<and>
   AbortFailedMultipartUploadsInBucket sim_New (Session ''default'') ''media''
     (\<lparr>sim_buckets = [''media''],
       sim_uploads = [(''media'', \<lparr>Key = Some ''young.bin'', UploadId = Some ''id-1'',
                                   Initiated = Some (1700000000 - 23 * 3600)\<rparr>)],
       sim_page = 1000, sim_list_fault = [], sim_abort_fault = []\<rparr>, []) =
   (Ok (),
    \<lparr>sim_buckets = [''media''], sim_uploads = [], sim_page = 1000,
      sim_list_fault = [], sim_abort_fault = []\<rparr>,
    [New (Session ''default'') None,
     CallListMultipartUploads \<lparr>lmu_Bucket = Some ''media'', lmu_KeyMarker = None, lmu_UploadIdMarker = None\<rparr>,
     CallAbortMultipartUpload \<lparr>amu_Bucket = Some ''media'', amu_Key = Some ''young.bin'',
                               amu_UploadId = Some ''id-1''\<rparr>])"
  by (simp add: run_defs sim_defs)

section \<open>The listing is read once: only its first page\<close>

text \<open>
  C3 does not hold of the code. A bucket holds \<open>N = 3\<close> uploads and the provider serves
  them in \<open>K = 2\<close> pages of at most two. The answer to the function's one listing
  request (sent without markers) is truncated and names the markers of the next page;
  the function aborts the two uploads of the first page, returns nil, and the third
  upload is still in progress at the provider. A listing request with the markers of the
  first response would have returned it. The comment in the source says that the
  function lists all in-progress uploads of the bucket.
\<close>

theorem second_page_is_never_fetched:
  "sim_ListMultipartUploads \<lparr>lmu_Bucket = Some ''a'', lmu_KeyMarker = None, lmu_UploadIdMarker = None\<rparr>
     \<lparr>sim_buckets = [''a''],
       sim_uploads = [(''a'', mk_upload ''k1'' ''id-1'' 10), (''a'', mk_upload ''k2'' ''id-2'' 20),
                      (''a'', mk_upload ''k3'' ''id-3'' 30)],
       sim_page = 2, sim_list_fault = [], sim_abort_fault = []\<rparr> =
   (Inr \<lparr>Uploads = [Some (mk_upload ''k1'' ''id-1'' 10), Some (mk_upload ''k2'' ''id-2'' 20)],
         IsTruncated = True, NextKeyMarker = Some ''k2'', NextUploadIdMarker = Some ''id-2''\<rparr>,
    \<lparr>sim_buckets = [''a''],
       sim_uploads = [(''a'', mk_upload ''k1'' ''id-1'' 10), (''a'', mk_upload ''k2'' ''id-2'' 20),
                      (''a'', mk_upload ''k3'' ''id-3'' 30)],
       sim_page = 2, sim_list_fault = [], sim_abort_fault = []\<rparr>) \<and>
   AbortFailedMultipartUploadsInBucket sim_New (Session ''default'') ''a''
     (\<lparr>sim_buckets = [''a''],
       sim_uploads = [(''a'', mk_upload ''k1'' ''id-1'' 10), (''a'', mk_upload ''k2'' ''id-2'' 20),
                      (''a'', mk_upload ''k3'' ''id-3'' 30)],
       sim_page = 2, sim_list_fault = [], sim_abort_fault = []\<rparr>, []) =
   (Ok (),
    \<lparr>sim_buckets = [''a''], sim_uploads = [(''a'', mk_upload ''k3'' ''id-3'' 30)], sim_page = 2,
      sim_list_fault = [], sim_abort_fault = []\<rparr>,
    [New (Session ''default'') None,
     CallListMultipartUploads \<lparr>lmu_Bucket = Some ''a'', lmu_KeyMarker = None, lmu_UploadIdMarker = None\<rparr>,
     CallAbortMultipartUpload \<lparr>amu_Bucket = Some ''a'', amu_Key = Some ''k1'', amu_UploadId = Some ''id-1''\<rparr>,
     CallAbortMultipartUpload \<lparr>amu_Bucket = Some ''a'', amu_Key = Some ''k2'', amu_UploadId = Some ''id-2''\<rparr>]) \<and>
   fst (sim_ListMultipartUploads
          \<lparr>lmu_Bucket = Some ''a'', lmu_KeyMarker = Some ''k2'', lmu_UploadIdMarker = Some ''id-2''\<rparr>
          \<lparr>sim_buckets = [''a''],
            sim_uploads = [(''a'', mk_upload ''k1'' ''id-1'' 10), (''a'', mk_upload ''k2'' ''id-2'' 20),
                           (''a'', mk_upload ''k3'' ''id-3'' 30)],
            sim_page = 2, sim_list_fault = [], sim_abort_fault = []\<rparr>) =
   Inr \<lparr>Uploads = [Some (mk_upload ''k3'' ''id-3'' 30)],
        IsTruncated = False, NextKeyMarker = None, NextUploadIdMarker = None\<rparr>"
  by (simp add: run_defs sim_defs)

section \<open>Abort errors: which are retried, and that all of them fail the run\<close>









section \<open>What a run leaves behind: a prefix of the listing and one error\<close>

lemma first_failing_abort:
  "\<not> aborts_succeed api b us s \<Longrightarrow>
     \<exists>before u after e s2. us = before @ u # after \<and> aborts_succeed api b before s \<and>
       AbortMultipartUpload api (abort_input b u) (after_aborts api b before s) = (Some e, s2)"
proof (induction us arbitrary: s)
  case Nil
  then show ?case by simp
next
  case (Cons x xs)
  obtain r s' where a: "AbortMultipartUpload api (abort_input b x) s = (r, s')"
    by (cases "AbortMultipartUpload api (abort_input b x) s")
  show ?case
  proof (cases r)
    case None
    with a Cons.prems have "\<not> aborts_succeed api b xs s'" by simp
    from Cons.IH [OF this]
    obtain before u after e s2 where xs: "xs = before @ u # after"
      and ok: "aborts_succeed api b before s'"
      and f: "AbortMultipartUpload api (abort_input b u) (after_aborts api b before s') = (Some e, s2)"
      by blast
    have "x # xs = (x # before) @ u # after" using xs by simp
    moreover have "aborts_succeed api b (x # before) s" using a None ok by simp
    moreover have "AbortMultipartUpload api (abort_input b u) (after_aborts api b (x # before) s) = (Some e, s2)"
      using a f by simp
    ultimately show ?thesis by blast
  next
    case (Some e)
    have "x # xs = [] @ x # xs" by simp
    moreover have "aborts_succeed api b [] s" by simp
    moreover have "AbortMultipartUpload api (abort_input b x) (after_aborts api b [] s) = (Some e, s')"
      using a Some by simp
    ultimately show ?thesis by blast
  qed
qed

lemma abort_loop_failure_world:
  assumes "aborts_succeed api b pre s"
    and "AbortMultipartUpload api (abort_input b u) (after_aborts api b pre s) = (Some e, s2)"
  shows "snd (abort_loop api b (map Some (pre @ u # post)) (s, log)) = (s2, log @ abort_calls b (pre @ [u])) \<and>
         fst (abort_loop api b (map Some (pre @ u # post)) (s, log)) \<noteq> Ok ()"
  using assms
proof (induction pre arbitrary: s log)
  case Nil
  then show ?case by (simp add: do_Abort_eq abort_calls_def split: option.splits)
next
  case (Cons p pre)
  obtain r s' where a: "AbortMultipartUpload api (abort_input b p) s = (r, s')"
    by (cases "AbortMultipartUpload api (abort_input b p) s")
  with Cons.prems have r: "r = None" and rest: "aborts_succeed api b pre s'"
    by (auto split: option.splits)
  from Cons.prems a have next_fail:
    "AbortMultipartUpload api (abort_input b u) (after_aborts api b pre s') = (Some e, s2)"
    by simp
  from Cons.IH [OF rest next_fail, of "log @ [CallAbortMultipartUpload (abort_input b p)]"] a r show ?case
    by (simp add: do_Abort_eq abort_calls_def)
qed

text \<open>
  C5, as the code has it. Let the listing succeed with the uploads \<open>us\<close>. When the
  provider accepts the abort of every one of them, the function returns nil and has issued
  one abort per upload, in the listing's order. Otherwise there is a first upload \<open>u\<close>
  whose abort the provider answers with an error \<open>e\<close>: the function has issued the aborts
  of the uploads before \<open>u\<close> and that of \<open>u\<close>, once each and in order, and nothing after; it
  does not return nil but the one error \<open>e\<close>, naming the upload id and the key of \<open>u\<close>; the
  uploads after \<open>u\<close> get no call and appear nowhere in the result. One of the two cases
  always applies. There is no report.
\<close>

theorem listed_uploads_are_aborted_in_order_until_the_first_error:
  assumes "ListMultipartUploads (new sess None) (list_input b) s = (Inr out, s1)"
    and "Uploads out = map Some us"
  shows "(aborts_succeed (new sess None) b us s1 \<longrightarrow>
            AbortFailedMultipartUploadsInBucket new sess b (s, log) =
              (Ok (),
               (after_aborts (new sess None) b us s1,
                log @ [New sess None, CallListMultipartUploads (list_input b)] @ abort_calls b us))) \<and>
         (\<forall>before u after e s2.
            us = before @ u # after \<and> aborts_succeed (new sess None) b before s1 \<and>
            AbortMultipartUpload (new sess None) (abort_input b u)
              (after_aborts (new sess None) b before s1) = (Some e, s2) \<longrightarrow>
            snd (AbortFailedMultipartUploadsInBucket new sess b (s, log)) =
              (s2, log @ [New sess None, CallListMultipartUploads (list_input b)] @
                   abort_calls b before @ [CallAbortMultipartUpload (abort_input b u)]) \<and>
            fst (AbortFailedMultipartUploadsInBucket new sess b (s, log)) \<noteq> Ok () \<and>
            (\<forall>uid k. UploadId u = Some uid \<and> Key u = Some k \<longrightarrow>
               fst (AbortFailedMultipartUploadsInBucket new sess b (s, log)) =
                 Err (Errorf ''error aborting multipart upload %s for key %s: %v'' [uid, k] (Lib e)))) \<and>
         (aborts_succeed (new sess None) b us s1 \<or>
          (\<exists>before u after e s2.
             us = before @ u # after \<and> aborts_succeed (new sess None) b before s1 \<and>
             AbortMultipartUpload (new sess None) (abort_input b u)
               (after_aborts (new sess None) b before s1) = (Some e, s2)))"
proof (intro conjI impI allI)
  let ?api = "new sess None"
  let ?log = "log @ [New sess None, CallListMultipartUploads (list_input b)]"
  have run: "AbortFailedMultipartUploadsInBucket new sess b (s, log) =
               abort_loop ?api b (map Some us) (s1, ?log)"
    using AbortInBucket_listed [of new sess b s out s1 log, OF assms(1)] assms(2) by simp
  {
    assume "aborts_succeed ?api b us s1"
    from abort_loop_success [of ?api b us s1 ?log, OF this] run
    show "AbortFailedMultipartUploadsInBucket new sess b (s, log) =
            (Ok (), (after_aborts ?api b us s1,
               log @ [New sess None, CallListMultipartUploads (list_input b)] @ abort_calls b us))"
      by simp
  }
  {
    fix before u after e s2
    assume h: "us = before @ u # after \<and> aborts_succeed ?api b before s1 \<and>
               AbortMultipartUpload ?api (abort_input b u) (after_aborts ?api b before s1) = (Some e, s2)"
    then have ok: "aborts_succeed ?api b before s1"
      and f: "AbortMultipartUpload ?api (abort_input b u) (after_aborts ?api b before s1) = (Some e, s2)"
      and us: "us = before @ u # after"
      by simp_all
    from abort_loop_failure_world [of ?api b before s1 u e s2 after ?log, OF ok f] run us
    show "snd (AbortFailedMultipartUploadsInBucket new sess b (s, log)) =
            (s2, log @ [New sess None, CallListMultipartUploads (list_input b)] @
                 abort_calls b before @ [CallAbortMultipartUpload (abort_input b u)])"
      and "fst (AbortFailedMultipartUploadsInBucket new sess b (s, log)) \<noteq> Ok ()"
      by (simp_all add: abort_calls_def)
    fix uid k
    assume "UploadId u = Some uid \<and> Key u = Some k"
    then have uid: "UploadId u = Some uid" and k: "Key u = Some k" by simp_all
    from abort_loop_failure [of ?api b before s1 u e s2 uid k after ?log, OF ok f uid k] run us
    show "fst (AbortFailedMultipartUploadsInBucket new sess b (s, log)) =
            Err (Errorf ''error aborting multipart upload %s for key %s: %v'' [uid, k] (Lib e))"
      by simp
  }
  show "aborts_succeed ?api b us s1 \<or>
          (\<exists>before u after e s2.
             us = before @ u # after \<and> aborts_succeed ?api b before s1 \<and>
             AbortMultipartUpload ?api (abort_input b u) (after_aborts ?api b before s1) = (Some e, s2))"
    using first_failing_abort [of ?api b us s1] by blast
qed


theorem listed_uploads_are_aborted_in_order_until_the_first_error_witness:
  "AbortFailedMultipartUploadsInBucket sim_New (Session ''default'') ''a''
     (\<lparr>sim_buckets = [''a''],
       sim_uploads = [(''a'', mk_upload ''k1'' ''id-1'' 10), (''a'', mk_upload ''k2'' ''id-2'' 20)],
       sim_page = 1000, sim_list_fault = [], sim_abort_fault = []\<rparr>, []) =
   (Ok (),
    \<lparr>sim_buckets = [''a''], sim_uploads = [], sim_page = 1000,
      sim_list_fault = [], sim_abort_fault = []\<rparr>,
    [New (Session ''default'') None,
     CallListMultipartUploads \<lparr>lmu_Bucket = Some ''a'', lmu_KeyMarker = None, lmu_UploadIdMarker = None\<rparr>,
     CallAbortMultipartUpload \<lparr>amu_Bucket = Some ''a'', amu_Key = Some ''k1'', amu_UploadId = Some ''id-1''\<rparr>,
     CallAbortMultipartUpload \<lparr>amu_Bucket = Some ''a'', amu_Key = Some ''k2'', amu_UploadId = Some ''id-2''\<rparr>]) \<and>
   AbortFailedMultipartUploadsInBucket sim_New (Session ''default'') ''a''
     (\<lparr>sim_buckets = [''a''],
       sim_uploads = [(''a'', mk_upload ''k1'' ''id-1'' 10), (''a'', mk_upload ''k2'' ''id-2'' 20),
                      (''a'', mk_upload ''k3'' ''id-3'' 30)],
       sim_page = 1000, sim_list_fault = [], sim_abort_fault = [(''id-2'', AccessDenied)]\<rparr>, []) =
   (Err (Errorf ''error aborting multipart upload %s for key %s: %v'' [''id-2'', ''k2''] (Lib AccessDenied)),
    \<lparr>sim_buckets = [''a''],
      sim_uploads = [(''a'', mk_upload ''k2'' ''id-2'' 20), (''a'', mk_upload ''k3'' ''id-3'' 30)],
      sim_page = 1000, sim_list_fault = [], sim_abort_fault = [(''id-2'', AccessDenied)]\<rparr>,
    [New (Session ''default'') None,
     CallListMultipartUploads \<lparr>lmu_Bucket = Some ''a'', lmu_KeyMarker = None, lmu_UploadIdMarker = None\<rparr>,
     CallAbortMultipartUpload \<lparr>amu_Bucket = Some ''a'', amu_Key = Some ''k1'', amu_UploadId = Some ''id-1''\<rparr>,
     CallAbortMultipartUpload \<lparr>amu_Bucket = Some ''a'', amu_Key = Some ''k2'', amu_UploadId = Some ''id-2''\<rparr>])"
proof -
  let ?u1 = "mk_upload ''k1'' ''id-1'' 10"
  let ?u2 = "mk_upload ''k2'' ''id-2'' 20"
  let ?u3 = "mk_upload ''k3'' ''id-3'' 30"
  let ?api = "sim_New (Session ''default'') None"
  txt \<open>Every abort is accepted.\<close>
  let ?a = "\<lparr>sim_buckets = [''a''], sim_uploads = [(''a'', ?u1), (''a'', ?u2)],
              sim_page = 1000, sim_list_fault = [], sim_abort_fault = []\<rparr>"
  let ?outa = "\<lparr>Uploads = map Some [?u1, ?u2], IsTruncated = False, NextKeyMarker = None,
                 NextUploadIdMarker = None\<rparr>"
  have a1: "ListMultipartUploads ?api (list_input ''a'') ?a = (Inr ?outa, ?a)"
    by (simp add: sim_defs list_input_def)
  have a2: "Uploads ?outa = map Some [?u1, ?u2]" by simp
  have a3: "aborts_succeed ?api ''a'' [?u1, ?u2] ?a"
    by (simp add: sim_defs abort_input_def)
  have a4: "after_aborts ?api ''a'' [?u1, ?u2] ?a =
              \<lparr>sim_buckets = [''a''], sim_uploads = [], sim_page = 1000,
                sim_list_fault = [], sim_abort_fault = []\<rparr>"
    by (simp add: sim_defs abort_input_def)
  from listed_uploads_are_aborted_in_order_until_the_first_error
         [of sim_New "Session ''default''" "''a''" ?a ?outa ?a "[?u1, ?u2]" "[]", OF a1 a2] a3
  have "AbortFailedMultipartUploadsInBucket sim_New (Session ''default'') ''a'' (?a, []) =
          (Ok (), (after_aborts ?api ''a'' [?u1, ?u2] ?a,
             [] @ [New (Session ''default'') None, CallListMultipartUploads (list_input ''a'')] @
             abort_calls ''a'' [?u1, ?u2]))"
    by blast
  then have first: "AbortFailedMultipartUploadsInBucket sim_New (Session ''default'') ''a'' (?a, []) =
      (Ok (),
       \<lparr>sim_buckets = [''a''], sim_uploads = [], sim_page = 1000,
         sim_list_fault = [], sim_abort_fault = []\<rparr>,
       [New (Session ''default'') None,
        CallListMultipartUploads \<lparr>lmu_Bucket = Some ''a'', lmu_KeyMarker = None, lmu_UploadIdMarker = None\<rparr>,
        CallAbortMultipartUpload \<lparr>amu_Bucket = Some ''a'', amu_Key = Some ''k1'', amu_UploadId = Some ''id-1''\<rparr>,
        CallAbortMultipartUpload \<lparr>amu_Bucket = Some ''a'', amu_Key = Some ''k2'', amu_UploadId = Some ''id-2''\<rparr>])"
    unfolding a4 by (simp add: list_input_def abort_calls_def abort_input_def mk_upload_def)
  txt \<open>The abort of the second of three uploads is denied.\<close>
  let ?b = "\<lparr>sim_buckets = [''a''], sim_uploads = [(''a'', ?u1), (''a'', ?u2), (''a'', ?u3)],
              sim_page = 1000, sim_list_fault = [], sim_abort_fault = [(''id-2'', AccessDenied)]\<rparr>"
  let ?b2 = "\<lparr>sim_buckets = [''a''], sim_uploads = [(''a'', ?u2), (''a'', ?u3)],
              sim_page = 1000, sim_list_fault = [], sim_abort_fault = [(''id-2'', AccessDenied)]\<rparr>"
  let ?outb = "\<lparr>Uploads = map Some [?u1, ?u2, ?u3], IsTruncated = False, NextKeyMarker = None,
                 NextUploadIdMarker = None\<rparr>"
  let ?runb = "AbortFailedMultipartUploadsInBucket sim_New (Session ''default'') ''a'' (?b, [])"
  have b1: "ListMultipartUploads ?api (list_input ''a'') ?b = (Inr ?outb, ?b)"
    by (simp add: sim_defs list_input_def)
  have b2: "Uploads ?outb = map Some [?u1, ?u2, ?u3]" by simp
  have b3: "[?u1, ?u2, ?u3] = [?u1] @ ?u2 # [?u3] \<and> aborts_succeed ?api ''a'' [?u1] ?b \<and>
            AbortMultipartUpload ?api (abort_input ''a'' ?u2) (after_aborts ?api ''a'' [?u1] ?b) =
              (Some AccessDenied, ?b2)"
    by (simp add: sim_defs abort_input_def)
  have b4: "UploadId ?u2 = Some ''id-2'' \<and> Key ?u2 = Some ''k2''" by (simp add: mk_upload_def)
  from listed_uploads_are_aborted_in_order_until_the_first_error
         [of sim_New "Session ''default''" "''a''" ?b ?outb ?b "[?u1, ?u2, ?u3]" "[]", OF b1 b2] b3 b4
  have "snd ?runb =
          (?b2, [] @ [New (Session ''default'') None, CallListMultipartUploads (list_input ''a'')] @
                abort_calls ''a'' [?u1] @ [CallAbortMultipartUpload (abort_input ''a'' ?u2)])"
    and "fst ?runb =
          Err (Errorf ''error aborting multipart upload %s for key %s: %v'' [''id-2'', ''k2''] (Lib AccessDenied))"
    by blast+
  then have second: "?runb =
      (Err (Errorf ''error aborting multipart upload %s for key %s: %v'' [''id-2'', ''k2''] (Lib AccessDenied)),
       ?b2,
       [New (Session ''default'') None,
        CallListMultipartUploads \<lparr>lmu_Bucket = Some ''a'', lmu_KeyMarker = None, lmu_UploadIdMarker = None\<rparr>,
        CallAbortMultipartUpload \<lparr>amu_Bucket = Some ''a'', amu_Key = Some ''k1'', amu_UploadId = Some ''id-1''\<rparr>,
        CallAbortMultipartUpload \<lparr>amu_Bucket = Some ''a'', amu_Key = Some ''k2'', amu_UploadId = Some ''id-2''\<rparr>])"
    by (cases ?runb) (simp add: list_input_def abort_calls_def abort_input_def mk_upload_def)
  from first second show ?thesis by blast
qed

text \<open>
  C5 as stated fails: the listing yields three uploads and the abort of the second is
  denied. The function returns the error of the second upload; the third upload gets no
  abort call, is still in progress at the provider and is named nowhere in what the
  function returns. Nothing like a report with one outcome per descriptor exists: the
  result is that single error.
\<close>

theorem upload_after_a_failure_is_dropped:
  "AbortFailedMultipartUploadsInBucket sim_New (Session ''default'') ''a''
     (\<lparr>sim_buckets = [''a''],
       sim_uploads = [(''a'', mk_upload ''k1'' ''id-1'' 10), (''a'', mk_upload ''k2'' ''id-2'' 20),
                      (''a'', mk_upload ''k3'' ''id-3'' 30)],
       sim_page = 1000, sim_list_fault = [], sim_abort_fault = [(''id-2'', AccessDenied)]\<rparr>, []) =
   (Err (Errorf ''error aborting multipart upload %s for key %s: %v'' [''id-2'', ''k2''] (Lib AccessDenied)),
    \<lparr>sim_buckets = [''a''],
      sim_uploads = [(''a'', mk_upload ''k2'' ''id-2'' 20), (''a'', mk_upload ''k3'' ''id-3'' 30)],
      sim_page = 1000, sim_list_fault = [], sim_abort_fault = [(''id-2'', AccessDenied)]\<rparr>,
    [New (Session ''default'') None,
     CallListMultipartUploads \<lparr>lmu_Bucket = Some ''a'', lmu_KeyMarker = None, lmu_UploadIdMarker = None\<rparr>,
     CallAbortMultipartUpload \<lparr>amu_Bucket = Some ''a'', amu_Key = Some ''k1'', amu_UploadId = Some ''id-1''\<rparr>,
     CallAbortMultipartUpload \<lparr>amu_Bucket = Some ''a'', amu_Key = Some ''k2'', amu_UploadId = Some ''id-2''\<rparr>])"
  by (simp add: run_defs sim_defs)

section \<open>The run over all buckets stops at the first failing bucket\<close>

lemma all_buckets_loop_named:
  "all_buckets_loop new sess (bucket_named p # bs) w =
     (case AbortFailedMultipartUploadsInBucket new sess p w of
        (Ok u, w') \<Rightarrow> all_buckets_loop new sess bs w'
      | (Err err, w') \<Rightarrow>
          (Err (Errorf ''error aborting multipart uploads in bucket %s: %v'' [p] err), w')
      | (NilDeref, w') \<Rightarrow> (NilDeref, w'))"
  by (simp add: bucket_named_def)

lemma all_buckets_loop_stops:
  assumes "all_buckets_loop new sess (map bucket_named before) w = (Ok (), w1)"
    and "AbortFailedMultipartUploadsInBucket new sess name w1 = (Err e, w2)"
  shows "all_buckets_loop new sess (map bucket_named (before @ name # after)) w =
           (Err (Errorf ''error aborting multipart uploads in bucket %s: %v'' [name] e), w2)"
  using assms
proof (induction before arbitrary: w)
  case Nil
  then show ?case by (simp add: all_buckets_loop_named)
next
  case (Cons p before)
  obtain r w' where run: "AbortFailedMultipartUploadsInBucket new sess p w = (r, w')"
    by (cases "AbortFailedMultipartUploadsInBucket new sess p w")
  with Cons.prems(1) have r: "r = Ok ()" and rest: "all_buckets_loop new sess (map bucket_named before) w' = (Ok (), w1)"
    by (auto simp: all_buckets_loop_named split: res.splits)
  from Cons.IH [OF rest Cons.prems(2)] run r show ?case
    by (simp add: all_buckets_loop_named)
qed

text \<open>
  C2, as the code has it. A failure in one bucket is not isolated. When the buckets
  before it were processed without error and the per-bucket operation fails on a bucket
  (its listing or one of its aborts), the run over all buckets returns that error at once,
  wrapped with the bucket's name, and the world is the one the failing bucket left: no
  call is issued for any bucket after it.
\<close>

theorem first_failing_bucket_ends_the_run:
  assumes "ListBuckets (new sess None) s = (Inr out, s1)"
    and "Buckets out = map bucket_named (before @ name # after)"
    and "all_buckets_loop new sess (map bucket_named before) (s1, log @ [New sess None, CallListBuckets]) = (Ok (), w1)"
    and "AbortFailedMultipartUploadsInBucket new sess name w1 = (Err e, w2)"
  shows "AbortFailedMultipartUploadsInAllBuckets new sess (s, log) =
           (Err (Errorf ''error aborting multipart uploads in bucket %s: %v'' [name] e), w2)"
proof -
  have "AbortFailedMultipartUploadsInAllBuckets new sess (s, log) =
          all_buckets_loop new sess (map bucket_named (before @ name # after))
            (s1, log @ [New sess None, CallListBuckets])"
    using assms(1) assms(2)
    by (simp add: AbortFailedMultipartUploadsInAllBuckets_def do_New_def do_ListBuckets_def logged_def)
  with all_buckets_loop_stops [OF assms(3) assms(4), of after] show ?thesis by simp
qed

theorem first_failing_bucket_ends_the_run_witness:
  "AbortFailedMultipartUploadsInAllBuckets sim_New (Session ''default'')
     (\<lparr>sim_buckets = [''a'', ''b'', ''c''],
       sim_uploads = [(''a'', mk_upload ''k1'' ''id-1'' 10), (''b'', mk_upload ''k2'' ''id-2'' 20),
                      (''c'', mk_upload ''k3'' ''id-3'' 30)],
       sim_page = 1000, sim_list_fault = [(''b'', AccessDenied)], sim_abort_fault = []\<rparr>, []) =
   (Err (Errorf ''error aborting multipart uploads in bucket %s: %v'' [''b'']
          (Errorf ''error listing multipart uploads for bucket %s: %v'' [''b''] (Lib AccessDenied))),
    \<lparr>sim_buckets = [''a'', ''b'', ''c''],
      sim_uploads = [(''b'', mk_upload ''k2'' ''id-2'' 20), (''c'', mk_upload ''k3'' ''id-3'' 30)],
      sim_page = 1000, sim_list_fault = [(''b'', AccessDenied)], sim_abort_fault = []\<rparr>,
    [New (Session ''default'') None, CallListBuckets,
     New (Session ''default'') None,
     CallListMultipartUploads \<lparr>lmu_Bucket = Some ''a'', lmu_KeyMarker = None, lmu_UploadIdMarker = None\<rparr>,
     CallAbortMultipartUpload \<lparr>amu_Bucket = Some ''a'', amu_Key = Some ''k1'', amu_UploadId = Some ''id-1''\<rparr>,
     New (Session ''default'') None,
     CallListMultipartUploads \<lparr>lmu_Bucket = Some ''b'', lmu_KeyMarker = None, lmu_UploadIdMarker = None\<rparr>])"
proof -
  let ?st = "\<lparr>sim_buckets = [''a'', ''b'', ''c''],
       sim_uploads = [(''a'', mk_upload ''k1'' ''id-1'' 10), (''b'', mk_upload ''k2'' ''id-2'' 20),
                      (''c'', mk_upload ''k3'' ''id-3'' 30)],
       sim_page = 1000, sim_list_fault = [(''b'', AccessDenied)], sim_abort_fault = []\<rparr>"
  let ?st1 = "\<lparr>sim_buckets = [''a'', ''b'', ''c''],
      sim_uploads = [(''b'', mk_upload ''k2'' ''id-2'' 20), (''c'', mk_upload ''k3'' ''id-3'' 30)],
      sim_page = 1000, sim_list_fault = [(''b'', AccessDenied)], sim_abort_fault = []\<rparr>"
  let ?log1 = "[New (Session ''default'') None, CallListBuckets,
     New (Session ''default'') None,
     CallListMultipartUploads \<lparr>lmu_Bucket = Some ''a'', lmu_KeyMarker = None, lmu_UploadIdMarker = None\<rparr>,
     CallAbortMultipartUpload \<lparr>amu_Bucket = Some ''a'', amu_Key = Some ''k1'', amu_UploadId = Some ''id-1''\<rparr>]"
  let ?out = "\<lparr>Buckets = map bucket_named ([''a''] @ ''b'' # [''c''])\<rparr>"
  have h1: "ListBuckets (sim_New (Session ''default'') None) ?st = (Inr ?out, ?st)"
    by (simp add: sim_defs)
  have h2: "Buckets ?out = map bucket_named ([''a''] @ ''b'' # [''c''])" by simp
  have h3: "all_buckets_loop sim_New (Session ''default'') (map bucket_named [''a''])
              (?st, [] @ [New (Session ''default'') None, CallListBuckets]) = (Ok (), (?st1, ?log1))"
    by (simp add: run_defs sim_defs)
  have h4: "AbortFailedMultipartUploadsInBucket sim_New (Session ''default'') ''b'' (?st1, ?log1) =
              (Err (Errorf ''error listing multipart uploads for bucket %s: %v'' [''b''] (Lib AccessDenied)),
               (?st1, ?log1 @ [New (Session ''default'') None,
                  CallListMultipartUploads \<lparr>lmu_Bucket = Some ''b'', lmu_KeyMarker = None, lmu_UploadIdMarker = None\<rparr>]))"
    by (simp add: run_defs sim_defs)
  from first_failing_bucket_ends_the_run
         [of sim_New "Session ''default''" ?st ?out ?st "[''a'']" "''b''" "[''c'']" "[]", OF h1 h2 h3 h4]
  show ?thesis by simp
qed

text \<open>
  C2 as stated fails: of two buckets the listing of the first is denied. The run returns
  the error of the first bucket; no listing and no abort is issued for the second bucket,
  whose upload is still in progress at the provider.
\<close>

theorem denied_bucket_blocks_the_next_bucket:
  "AbortFailedMultipartUploadsInAllBuckets sim_New (Session ''default'')
     (\<lparr>sim_buckets = [''a'', ''b''],
       sim_uploads = [(''a'', mk_upload ''k1'' ''id-1'' 10), (''b'', mk_upload ''k2'' ''id-2'' 20)],
       sim_page = 1000, sim_list_fault = [(''a'', AccessDenied)], sim_abort_fault = []\<rparr>, []) =
   (Err (Errorf ''error aborting multipart uploads in bucket %s: %v'' [''a'']
          (Errorf ''error listing multipart uploads for bucket %s: %v'' [''a''] (Lib AccessDenied))),
    \<lparr>sim_buckets = [''a'', ''b''],
      sim_uploads = [(''a'', mk_upload ''k1'' ''id-1'' 10), (''b'', mk_upload ''k2'' ''id-2'' 20)],
      sim_page = 1000, sim_list_fault = [(''a'', AccessDenied)], sim_abort_fault = []\<rparr>,
    [New (Session ''default'') None, CallListBuckets,
     New (Session ''default'') None,
     CallListMultipartUploads \<lparr>lmu_Bucket = Some ''a'', lmu_KeyMarker = None, lmu_UploadIdMarker = None\<rparr>])"
  by (simp add: run_defs sim_defs)

section \<open>Running the bucket operation twice\<close>

lemma count_list_abort_calls_absent:
  "c \<notin> set (abort_calls b us) \<Longrightarrow> count_list (abort_calls b (take n us)) c = 0"
proof -
  assume "c \<notin> set (abort_calls b us)"
  moreover have "set (abort_calls b (take n us)) \<subseteq> set (abort_calls b us)"
    unfolding abort_calls_def by (auto dest: in_set_takeD)
  ultimately have "c \<notin> set (abort_calls b (take n us))" by blast
  then show ?thesis by (simp add: count_list_0_iff)
qed

text \<open>
  C6, as the code has it. The second run lists the bucket again from the start and issues
  aborts only for uploads its own listing response returns, in the response's order. So
  when the second listing returns none of the uploads the first run submitted (a provider
  that drops an aborted upload from its listing), no abort call of the first run is issued
  again. A not-found answer to an abort of the second run is returned as the error of the
  run: it is a failure, not a success.
\<close>

theorem second_run_aborts_what_its_own_listing_returns:
  assumes "AbortFailedMultipartUploadsInBucket new sess b (s0, log0) = (r1, (s1, log1))"
    and "ListMultipartUploads (new sess None) (list_input b) s1 = (Inr out2, s2)"
    and "Uploads out2 = map Some us2"
  shows "(\<exists>n\<le>length us2.
            snd (snd (AbortFailedMultipartUploadsInBucket new sess b (s1, log1))) =
              log1 @ [New sess None, CallListMultipartUploads (list_input b)] @ abort_calls b (take n us2)) \<and>
         ((\<forall>u\<in>set us2. CallAbortMultipartUpload (abort_input b u) \<notin> set log1) \<longrightarrow>
            (\<forall>c. is_abort_call c \<and> c \<in> set log1 \<longrightarrow>
               count_list (snd (snd (AbortFailedMultipartUploadsInBucket new sess b (s1, log1)))) c =
               count_list log1 c)) \<and>
         (\<forall>before u after uid k s3.
            us2 = before @ u # after \<and> aborts_succeed (new sess None) b before s2 \<and>
            AbortMultipartUpload (new sess None) (abort_input b u)
              (after_aborts (new sess None) b before s2) = (Some NoSuchUpload, s3) \<and>
            UploadId u = Some uid \<and> Key u = Some k \<longrightarrow>
            fst (AbortFailedMultipartUploadsInBucket new sess b (s1, log1)) =
              Err (Errorf ''error aborting multipart upload %s for key %s: %v'' [uid, k] (Lib NoSuchUpload)))"
proof (intro conjI impI allI)
  let ?log = "log1 @ [New sess None, CallListMultipartUploads (list_input b)]"
  let ?run2 = "AbortFailedMultipartUploadsInBucket new sess b (s1, log1)"
  have run: "?run2 = abort_loop (new sess None) b (map Some us2) (s2, ?log)"
    using AbortInBucket_listed [of new sess b s1 out2 s2 log1, OF assms(2)] assms(3) by simp
  from abort_loop_prefix [of us2 "new sess None" b s2 ?log]
  obtain n where n: "n \<le> length us2"
    and l: "snd (snd ?run2) = ?log @ abort_calls b (take n us2)"
    unfolding run by blast
  from n l show "\<exists>n\<le>length us2. snd (snd ?run2) =
      log1 @ [New sess None, CallListMultipartUploads (list_input b)] @ abort_calls b (take n us2)"
    by (intro exI [of _ n]) simp
  {
    fix c
    assume fresh: "\<forall>u\<in>set us2. CallAbortMultipartUpload (abort_input b u) \<notin> set log1"
      and c: "is_abort_call c \<and> c \<in> set log1"
    from fresh c have "c \<notin> set (abort_calls b us2)"
      by (auto simp: abort_calls_def)
    then have "count_list (abort_calls b (take n us2)) c = 0"
      by (rule count_list_abort_calls_absent)
    moreover from c have "c \<noteq> New sess None" and "c \<noteq> CallListMultipartUploads (list_input b)"
      by auto
    ultimately show "count_list (snd (snd ?run2)) c = count_list log1 c"
      using l by simp
  }
  {
    fix before u after uid k s3
    assume h: "us2 = before @ u # after \<and> aborts_succeed (new sess None) b before s2 \<and>
            AbortMultipartUpload (new sess None) (abort_input b u)
              (after_aborts (new sess None) b before s2) = (Some NoSuchUpload, s3) \<and>
            UploadId u = Some uid \<and> Key u = Some k"
    then have "abort_loop (new sess None) b (map Some (before @ u # after)) (s2, ?log) =
           (Err (Errorf ''error aborting multipart upload %s for key %s: %v'' [uid, k] (Lib NoSuchUpload)),
            (s3, ?log @ abort_calls b (before @ [u])))"
      by (intro abort_loop_failure) simp_all
    with h run show "fst ?run2 =
        Err (Errorf ''error aborting multipart upload %s for key %s: %v'' [uid, k] (Lib NoSuchUpload))"
      by simp
  }
qed


theorem second_run_aborts_what_its_own_listing_returns_witness:
  "count_list
     (snd (snd (AbortFailedMultipartUploadsInBucket sim_New (Session ''default'') ''a''
        (\<lparr>sim_buckets = [''a''], sim_uploads = [(''a'', mk_upload ''k2'' ''id-2'' 20)],
          sim_page = 1, sim_list_fault = [], sim_abort_fault = []\<rparr>,
         [New (Session ''default'') None, CallListMultipartUploads (list_input ''a''),
          CallAbortMultipartUpload (abort_input ''a'' (mk_upload ''k1'' ''id-1'' 10))]))))
     (CallAbortMultipartUpload (abort_input ''a'' (mk_upload ''k1'' ''id-1'' 10))) = 1 \<and>
   fst (AbortFailedMultipartUploadsInBucket sim_New (Session ''default'') ''a''
        (\<lparr>sim_buckets = [''a''], sim_uploads = [(''a'', mk_upload ''k1'' ''id-1'' 10)],
          sim_page = 1000, sim_list_fault = [], sim_abort_fault = [(''id-1'', NoSuchUpload)]\<rparr>,
         [New (Session ''default'') None, CallListMultipartUploads (list_input ''a''),
          CallAbortMultipartUpload (abort_input ''a'' (mk_upload ''k1'' ''id-1'' 10))])) =
     Err (Errorf ''error aborting multipart upload %s for key %s: %v'' [''id-1'', ''k1''] (Lib NoSuchUpload))"
proof -
  let ?u1 = "mk_upload ''k1'' ''id-1'' 10"
  let ?u2 = "mk_upload ''k2'' ''id-2'' 20"
  let ?log1 = "[New (Session ''default'') None, CallListMultipartUploads (list_input ''a''),
                CallAbortMultipartUpload (abort_input ''a'' ?u1)]"
  txt \<open>Two uploads served one per page: the first run aborts the first, the second run the second.\<close>
  let ?a0 = "\<lparr>sim_buckets = [''a''], sim_uploads = [(''a'', ?u1), (''a'', ?u2)],
               sim_page = 1, sim_list_fault = [], sim_abort_fault = []\<rparr>"
  let ?a1 = "\<lparr>sim_buckets = [''a''], sim_uploads = [(''a'', ?u2)],
               sim_page = 1, sim_list_fault = [], sim_abort_fault = []\<rparr>"
  let ?outa = "\<lparr>Uploads = map Some [?u2], IsTruncated = False, NextKeyMarker = None,
                 NextUploadIdMarker = None\<rparr>"
  have a1: "AbortFailedMultipartUploadsInBucket sim_New (Session ''default'') ''a'' (?a0, []) =
              (Ok (), (?a1, ?log1))"
    by (simp add: run_defs sim_defs)
  have a2: "ListMultipartUploads (sim_New (Session ''default'') None) (list_input ''a'') ?a1 = (Inr ?outa, ?a1)"
    by (simp add: sim_defs list_input_def)
  have a3: "Uploads ?outa = map Some [?u2]" by simp
  have fresh: "\<forall>u\<in>set [?u2]. CallAbortMultipartUpload (abort_input ''a'' u) \<notin> set ?log1"
    by (simp add: abort_input_def mk_upload_def)
  have mem: "is_abort_call (CallAbortMultipartUpload (abort_input ''a'' ?u1)) \<and>
             CallAbortMultipartUpload (abort_input ''a'' ?u1) \<in> set ?log1"
    by simp
  have once: "count_list ?log1 (CallAbortMultipartUpload (abort_input ''a'' ?u1)) = 1"
    by (simp add: list_input_def)
  txt \<open>One upload that is gone at the provider although the listing shows it.\<close>
  let ?b0 = "\<lparr>sim_buckets = [''a''], sim_uploads = [(''a'', ?u1)],
               sim_page = 1000, sim_list_fault = [], sim_abort_fault = [(''id-1'', NoSuchUpload)]\<rparr>"
  let ?outb = "\<lparr>Uploads = map Some [?u1], IsTruncated = False, NextKeyMarker = None,
                 NextUploadIdMarker = None\<rparr>"
  have b1: "AbortFailedMultipartUploadsInBucket sim_New (Session ''default'') ''a'' (?b0, []) =
              (Err (Errorf ''error aborting multipart upload %s for key %s: %v'' [''id-1'', ''k1''] (Lib NoSuchUpload)),
               (?b0, ?log1))"
    by (simp add: run_defs sim_defs)
  have b2: "ListMultipartUploads (sim_New (Session ''default'') None) (list_input ''a'') ?b0 = (Inr ?outb, ?b0)"
    by (simp add: sim_defs list_input_def)
  have b3: "Uploads ?outb = map Some [?u1]" by simp
  have b4: "[?u1] = [] @ ?u1 # [] \<and> aborts_succeed (sim_New (Session ''default'') None) ''a'' [] ?b0 \<and>
            AbortMultipartUpload (sim_New (Session ''default'') None) (abort_input ''a'' ?u1)
              (after_aborts (sim_New (Session ''default'') None) ''a'' [] ?b0) = (Some NoSuchUpload, ?b0) \<and>
            UploadId ?u1 = Some ''id-1'' \<and> Key ?u1 = Some ''k1''"
    by (simp add: sim_defs abort_input_def)
  from second_run_aborts_what_its_own_listing_returns
         [of sim_New "Session ''default''" "''a''" ?a0 "[]" "Ok ()" ?a1 ?log1 ?outa ?a1 "[?u2]", OF a1 a2 a3]
       fresh mem once
  have first: "count_list
     (snd (snd (AbortFailedMultipartUploadsInBucket sim_New (Session ''default'') ''a'' (?a1, ?log1))))
     (CallAbortMultipartUpload (abort_input ''a'' ?u1)) = 1"
    by metis
  from second_run_aborts_what_its_own_listing_returns
         [of sim_New "Session ''default''" "''a''" ?b0 "[]" _ ?b0 ?log1 ?outb ?b0 "[?u1]", OF b1 b2 b3]
       b4
  have second: "fst (AbortFailedMultipartUploadsInBucket sim_New (Session ''default'') ''a'' (?b0, ?log1)) =
     Err (Errorf ''error aborting multipart upload %s for key %s: %v'' [''id-1'', ''k1''] (Lib NoSuchUpload))"
    by blast
  from first second show ?thesis by blast
qed

text \<open>
  C6 as stated fails: a listed upload is already gone at the provider (another party
  aborted it), and the provider answers its abort with not-found. The first run returns
  that error. The second run, on the same bucket state, lists the upload again, issues a
  second abort call for the same upload id, and returns the not-found as an error again.
\<close>

theorem not_found_on_second_run_is_a_failure:
  "AbortFailedMultipartUploadsInBucket sim_New (Session ''default'') ''a''
     (\<lparr>sim_buckets = [''a''], sim_uploads = [(''a'', mk_upload ''k1'' ''id-1'' 10)],
       sim_page = 1000, sim_list_fault = [], sim_abort_fault = [(''id-1'', NoSuchUpload)]\<rparr>, []) =
   (Err (Errorf ''error aborting multipart upload %s for key %s: %v'' [''id-1'', ''k1''] (Lib NoSuchUpload)),
    \<lparr>sim_buckets = [''a''], sim_uploads = [(''a'', mk_upload ''k1'' ''id-1'' 10)],
      sim_page = 1000, sim_list_fault = [], sim_abort_fault = [(''id-1'', NoSuchUpload)]\<rparr>,
    [New (Session ''default'') None,
     CallListMultipartUploads \<lparr>lmu_Bucket = Some ''a'', lmu_KeyMarker = None, lmu_UploadIdMarker = None\<rparr>,
     CallAbortMultipartUpload \<lparr>amu_Bucket = Some ''a'', amu_Key = Some ''k1'', amu_UploadId = Some ''id-1''\<rparr>]) \<and>
   AbortFailedMultipartUploadsInBucket sim_New (Session ''default'') ''a''
     (\<lparr>sim_buckets = [''a''], sim_uploads = [(''a'', mk_upload ''k1'' ''id-1'' 10)],
       sim_page = 1000, sim_list_fault = [], sim_abort_fault = [(''id-1'', NoSuchUpload)]\<rparr>,
      [New (Session ''default'') None,
       CallListMultipartUploads \<lparr>lmu_Bucket = Some ''a'', lmu_KeyMarker = None, lmu_UploadIdMarker = None\<rparr>,
       CallAbortMultipartUpload \<lparr>amu_Bucket = Some ''a'', amu_Key = Some ''k1'', amu_UploadId = Some ''id-1''\<rparr>]) =
   (Err (Errorf ''error aborting multipart upload %s for key %s: %v'' [''id-1'', ''k1''] (Lib NoSuchUpload)),
    \<lparr>sim_buckets = [''a''], sim_uploads = [(''a'', mk_upload ''k1'' ''id-1'' 10)],
      sim_page = 1000, sim_list_fault = [], sim_abort_fault = [(''id-1'', NoSuchUpload)]\<rparr>,
    [New (Session ''default'') None,
     CallListMultipartUploads \<lparr>lmu_Bucket = Some ''a'', lmu_KeyMarker = None, lmu_UploadIdMarker = None\<rparr>,
     CallAbortMultipartUpload \<lparr>amu_Bucket = Some ''a'', amu_Key = Some ''k1'', amu_UploadId = Some ''id-1''\<rparr>,
     New (Session ''default'') None,
     CallListMultipartUploads \<lparr>lmu_Bucket = Some ''a'', lmu_KeyMarker = None, lmu_UploadIdMarker = None\<rparr>,
     CallAbortMultipartUpload \<lparr>amu_Bucket = Some ''a'', amu_Key = Some ''k1'', amu_UploadId = Some ''id-1''\<rparr>])"
  by (simp add: run_defs sim_defs)

section \<open>The guard of main on the first argument\<close>

text \<open>
  C8. When the first command-line argument is exactly \<^verbatim>\<open>--profile\<close> or \<^verbatim>\<open>-p\<close>, \<open>main\<close>
  prints the message that the flag cannot be used alone and returns with status 0; the
  command is not executed (the outcome does not depend on \<open>execute\<close>, and the log gains
  the printed line only), whatever the arguments after it are: a \<^verbatim>\<open>--discover\<close> or
  \<^verbatim>\<open>-d\<close> among them changes nothing. When the first argument is anything else, as in
  \<^verbatim>\<open>--discover --profile prod\<close>, the guard does not fire and the command is executed
  on the whole argument vector.
\<close>

theorem profile_flag_first_is_rejected:
  "((flag = ''--profile'' \<or> flag = ''-p'') \<longrightarrow>
      main execute (prog # flag # rest) w =
        (0, (fst w, snd w @ [Println [S profile_alone_message]]))) \<and>
   (flag \<noteq> ''--profile'' \<and> flag \<noteq> ''-p'' \<longrightarrow>
      main execute (prog # flag # rest) w =
        (case execute (prog # flag # rest) (fst w, snd w @ [CallRootCmdExecute (prog # flag # rest)]) of
           (Some err, w1) \<Rightarrow> (1, (fst w1, snd w1 @ [Println [E err]]))
         | (None, w1) \<Rightarrow> (0, w1)))"
  by (auto simp: main_def printed_def logged_def split: prod.splits option.splits)

theorem profile_flag_first_is_rejected_witness:
  "main (\<lambda>args w. (None, w)) [''s3_mp_janitor'', ''--profile'', ''prod'', ''--discover''] ((), []) =
     (0, ((), [Println [S profile_alone_message]])) \<and>
   main (\<lambda>args w. (None, w)) [''s3_mp_janitor'', ''-p'', ''prod'', ''-d''] ((), []) =
     (0, ((), [Println [S profile_alone_message]])) \<and>
   main (\<lambda>args w. (None, w)) [''s3_mp_janitor'', ''--discover'', ''--profile'', ''prod''] ((), []) =
     (0, ((), [CallRootCmdExecute [''s3_mp_janitor'', ''--discover'', ''--profile'', ''prod'']]))"
  using profile_flag_first_is_rejected
          [of "''--profile''" "\<lambda>args w. (None, w)" "''s3_mp_janitor''" "[''prod'', ''--discover'']" "((), [])"]
        profile_flag_first_is_rejected
          [of "''-p''" "\<lambda>args w. (None, w)" "''s3_mp_janitor''" "[''prod'', ''-d'']" "((), [])"]
        profile_flag_first_is_rejected
          [of "''--discover''" "\<lambda>args w. (None, w)" "''s3_mp_janitor''" "[''--profile'', ''prod'']" "((), [])"]
  by simp

section \<open>Which profile the menu works with\<close>

lemma abort_loop_extends_log:
  "\<exists>cs. snd (snd (abort_loop api b ups (s, log))) = log @ cs"
  using abort_loop_log [of ups api b s log] by blast

lemma AbortInBucket_log:
  "\<exists>cs. snd (snd (AbortFailedMultipartUploadsInBucket new sess b (s, log))) =
          log @ New sess None # CallListMultipartUploads (list_input b) # cs"
proof (cases "ListMultipartUploads (new sess None) (list_input b) s")
  case (Pair r s1)
  show ?thesis
  proof (cases r)
    case (Inl e)
    with Pair show ?thesis
      using AbortInBucket_listing_fails [of new sess b s e s1 log] by simp
  next
    case (Inr out)
    with Pair have "AbortFailedMultipartUploadsInBucket new sess b (s, log) =
        abort_loop (new sess None) b (Uploads out)
          (s1, log @ [New sess None, CallListMultipartUploads (list_input b)])"
      using AbortInBucket_listed [of new sess b s out s1 log] by simp
    with abort_loop_extends_log
           [of "new sess None" b "Uploads out" s1 "log @ [New sess None, CallListMultipartUploads (list_input b)]"]
    show ?thesis by auto
  qed
qed

lemma GetCredentialsForProfile_log:
  "\<exists>cs. snd (snd (GetCredentialsForProfile env p w)) =
          snd w @ CallLoadDefaultConfig (if p = [] then ''default'' else p) # cs"
  by (auto simp: GetCredentialsForProfile_def LoadAWSConfigForProfile_def do_LoadDefaultConfig_def
        do_Retrieve_def logged_def Let_def split: sum.splits)

lemma GetBucketChoice_log:
  "\<exists>cs. snd (snd (GetBucketChoice env p w)) = snd w @ CallNewSessionWithOptions p # cs"
  by (auto simp: GetBucketChoice_def EstablishConnectionUsingProfile_def do_NewSessionWithOptions_def
        ListS3Buckets_def do_New_def do_ListBuckets_def do_prompt_Run_def logged_def
        split: sum.splits prod.splits option.splits)

text \<open>
  C9. In the branch \<^verbatim>\<open>Select the profile and bucket to expire\<close> of the menu, with
  \<open>profile\<close> the profile the user has just selected: the credentials are fetched for the
  global \<^verbatim>\<open>profileFlag\<close> (the configuration loaded is that of \<^verbatim>\<open>default\<close> when the flag is
  empty, as it is unless the command line set it), the session is created from
  \<^verbatim>\<open>profileFlag\<close> and those credentials, and the abort function runs on that session: its
  client is built from it and lists the chosen bucket. The selected profile is used for
  the choice of the bucket only (the session of the bucket prompt is made from it) and
  is printed; it has no part in the credentials or the session of the aborts.
\<close>

theorem menu_aborts_with_the_session_of_profileFlag:
  assumes "prompt_Run env ''Please choose an option'' choices = Inr ''Select the profile and bucket to expire''"
    and "GetProfileChoice env (s, log @ [CallPromptRun ''Please choose an option'' choices]) = (Ok profile, w1)"
    and "GetCredentialsForProfile env (profileFlag g) w1 = (Ok credentials, w2)"
    and "CreateAWSSessionWithCredentials env (profileFlag g) credentials = Inr sess"
    and "GetBucketChoice env profile
           (fst w2, snd w2 @ [CallCreateAWSSessionWithCredentials (profileFlag g) credentials]) = (Ok bucket, w4)"
  shows "menu_pass env g (s, log) =
           (case AbortFailedMultipartUploadsInBucket (s3New env) sess bucket
                   (fst w4, snd w4 @ [Printf ''You chose profile: %s and bucket: %s\<newline>'' [S profile, S bucket]]) of
              (Err err, w6) \<Rightarrow>
                (Continue,
                 (fst w6, snd w6 @ [Printf ''Error occurred expiring multipart uploads in bucket %v, %v\<newline>''
                                      [S bucket, E err]]))
            | (NilDeref, w6) \<Rightarrow> (Panics, w6)
            | (Ok u, w6) \<Rightarrow> (Continue, w6)) \<and>
         (\<exists>cs. snd w2 =
                 snd w1 @ CallLoadDefaultConfig (if profileFlag g = [] then ''default'' else profileFlag g) # cs) \<and>
         (\<exists>cs. snd w4 =
                 snd w2 @ CallCreateAWSSessionWithCredentials (profileFlag g) credentials #
                          CallNewSessionWithOptions profile # cs) \<and>
         (\<exists>cs. snd (snd (menu_pass env g (s, log))) =
                 snd w4 @ Printf ''You chose profile: %s and bucket: %s\<newline>'' [S profile, S bucket] #
                          New sess None # CallListMultipartUploads (list_input bucket) # cs)"
proof (intro conjI)
  let ?w5 = "(fst w4, snd w4 @ [Printf ''You chose profile: %s and bucket: %s\<newline>'' [S profile, S bucket]])"
  let ?run = "AbortFailedMultipartUploadsInBucket (s3New env) sess bucket ?w5"
  show pass: "menu_pass env g (s, log) =
           (case ?run of
              (Err err, w6) \<Rightarrow>
                (Continue,
                 (fst w6, snd w6 @ [Printf ''Error occurred expiring multipart uploads in bucket %v, %v\<newline>''
                                      [S bucket, E err]]))
            | (NilDeref, w6) \<Rightarrow> (Panics, w6)
            | (Ok u, w6) \<Rightarrow> (Continue, w6))"
    using assms
    by (simp add: menu_pass_def expire_one_bucket_def do_prompt_Run_def
          do_CreateAWSSessionWithCredentials_def printed_def logged_def
          split: prod.splits res.splits)
  from GetCredentialsForProfile_log [of env "profileFlag g" w1] assms(3)
  show "\<exists>cs. snd w2 =
          snd w1 @ CallLoadDefaultConfig (if profileFlag g = [] then ''default'' else profileFlag g) # cs"
    by simp
  from GetBucketChoice_log [of env profile
         "(fst w2, snd w2 @ [CallCreateAWSSessionWithCredentials (profileFlag g) credentials])"] assms(5)
  show "\<exists>cs. snd w4 =
          snd w2 @ CallCreateAWSSessionWithCredentials (profileFlag g) credentials #
                   CallNewSessionWithOptions profile # cs"
    by simp
  from AbortInBucket_log [of "s3New env" sess bucket "fst w4"
         "snd w4 @ [Printf ''You chose profile: %s and bucket: %s\<newline>'' [S profile, S bucket]]"]
  obtain cs where cs: "snd (snd ?run) =
      (snd w4 @ [Printf ''You chose profile: %s and bucket: %s\<newline>'' [S profile, S bucket]]) @
      New sess None # CallListMultipartUploads (list_input bucket) # cs"
    by blast
  obtain r w6 where run: "?run = (r, w6)" by (cases ?run)
  show "\<exists>cs. snd (snd (menu_pass env g (s, log))) =
          snd w4 @ Printf ''You chose profile: %s and bucket: %s\<newline>'' [S profile, S bucket] #
                   New sess None # CallListMultipartUploads (list_input bucket) # cs"
  proof (cases r)
    case (Ok u)
    with pass run cs show ?thesis by simp
  next
    case (Err err)
    with pass run cs show ?thesis by simp
  next
    case NilDeref
    with pass run cs show ?thesis by simp
  qed
qed


theorem menu_aborts_with_the_session_of_profileFlag_witness:
  "profileFlag init_globals = [] \<and>
   menu_pass
     (sim_env (\<lambda>label items.
        if label = ''Please choose an option'' then Inr ''Select the profile and bucket to expire''
        else if label = ''Please select a profile'' then Inr ''prod''
        else if label = ''Please select a bucket'' then Inr ''media''
        else Inl (OtherError ''interrupt'')))
     init_globals
     (\<lparr>sim_buckets = [''media''], sim_uploads = [(''media'', mk_upload ''k1'' ''id-1'' 10)],
       sim_page = 1000, sim_list_fault = [], sim_abort_fault = []\<rparr>, []) =
   (Continue,
    \<lparr>sim_buckets = [''media''], sim_uploads = [], sim_page = 1000,
      sim_list_fault = [], sim_abort_fault = []\<rparr>,
    [CallPromptRun ''Please choose an option'' choices,
     CallIniLoad,
     CallPromptRun ''Please select a profile'' [''DEFAULT'', ''default'', ''prod''],
     CallLoadDefaultConfig ''default'',
     CallRetrieve (AwsConfig ''default''),
     CallCreateAWSSessionWithCredentials [] (Credentials ''default''),
     CallNewSessionWithOptions ''prod'',
     New (Session ''session of prod'') (Some ''ap-southeast-2''),
     CallListBuckets,
     CallPromptRun ''Please select a bucket'' [''media''],
     Printf ''You chose profile: %s and bucket: %s\<newline>'' [S ''prod'', S ''media''],
     New (Session ''session from the credentials of default'') None,
     CallListMultipartUploads \<lparr>lmu_Bucket = Some ''media'', lmu_KeyMarker = None, lmu_UploadIdMarker = None\<rparr>,
     CallAbortMultipartUpload \<lparr>amu_Bucket = Some ''media'', amu_Key = Some ''k1'', amu_UploadId = Some ''id-1''\<rparr>])"
proof -
  let ?answers = "\<lambda>label items.
        if label = ''Please choose an option'' then Inr ''Select the profile and bucket to expire''
        else if label = ''Please select a profile'' then Inr ''prod''
        else if label = ''Please select a bucket'' then Inr ''media''
        else Inl (OtherError ''interrupt'')"
  let ?env = "sim_env ?answers"
  let ?st = "\<lparr>sim_buckets = [''media''], sim_uploads = [(''media'', mk_upload ''k1'' ''id-1'' 10)],
       sim_page = 1000, sim_list_fault = [], sim_abort_fault = []\<rparr>"
  let ?log1 = "[CallPromptRun ''Please choose an option'' choices, CallIniLoad,
                CallPromptRun ''Please select a profile'' [''DEFAULT'', ''default'', ''prod'']]"
  let ?log2 = "?log1 @ [CallLoadDefaultConfig ''default'', CallRetrieve (AwsConfig ''default'')]"
  let ?log4 = "?log2 @ [CallCreateAWSSessionWithCredentials [] (Credentials ''default''),
                CallNewSessionWithOptions ''prod'',
                New (Session ''session of prod'') (Some ''ap-southeast-2''), CallListBuckets,
                CallPromptRun ''Please select a bucket'' [''media'']]"
  have h1: "prompt_Run ?env ''Please choose an option'' choices = Inr ''Select the profile and bucket to expire''"
    by (simp add: sim_env_def)
  have h2: "GetProfileChoice ?env (?st, [] @ [CallPromptRun ''Please choose an option'' choices]) =
              (Ok ''prod'', (?st, ?log1))"
    by (simp add: GetProfileChoice_def RetrieveConfiguredProfiles_def ReadAWSConfigFile_def
          do_ini_Load_def do_prompt_Run_def logged_def section_profile_def sim_env_def)
  have h3: "GetCredentialsForProfile ?env (profileFlag init_globals) (?st, ?log1) =
              (Ok (Credentials ''default''), (?st, ?log2))"
    by (simp add: GetCredentialsForProfile_def LoadAWSConfigForProfile_def do_LoadDefaultConfig_def
          do_Retrieve_def logged_def init_globals_def sim_env_def Let_def)
  have h4: "CreateAWSSessionWithCredentials ?env (profileFlag init_globals) (Credentials ''default'') =
              Inr (Session ''session from the credentials of default'')"
    by (simp add: sim_env_def)
  have h5: "GetBucketChoice ?env ''prod''
              (fst (?st, ?log2), snd (?st, ?log2) @
                 [CallCreateAWSSessionWithCredentials (profileFlag init_globals) (Credentials ''default'')]) =
              (Ok ''media'', (?st, ?log4))"
    by (simp add: GetBucketChoice_def EstablishConnectionUsingProfile_def do_NewSessionWithOptions_def
          do_prompt_Run_def logged_def init_globals_def sim_env_def run_defs sim_defs)
  have run: "AbortFailedMultipartUploadsInBucket (s3New ?env) (Session ''session from the credentials of default'')
               ''media'' (fst (?st, ?log4), snd (?st, ?log4) @
                  [Printf ''You chose profile: %s and bucket: %s\<newline>'' [S ''prod'', S ''media'']]) =
             (Ok (), (\<lparr>sim_buckets = [''media''], sim_uploads = [], sim_page = 1000,
                       sim_list_fault = [], sim_abort_fault = []\<rparr>,
                     ?log4 @ [Printf ''You chose profile: %s and bucket: %s\<newline>'' [S ''prod'', S ''media''],
                       New (Session ''session from the credentials of default'') None,
                       CallListMultipartUploads \<lparr>lmu_Bucket = Some ''media'', lmu_KeyMarker = None, lmu_UploadIdMarker = None\<rparr>,
                       CallAbortMultipartUpload \<lparr>amu_Bucket = Some ''media'', amu_Key = Some ''k1'', amu_UploadId = Some ''id-1''\<rparr>]))"
    by (simp add: sim_env_def run_defs sim_defs)
  from menu_aborts_with_the_session_of_profileFlag [OF h1 h2 h3 h4 h5]
  have "menu_pass ?env init_globals (?st, []) =
          (case AbortFailedMultipartUploadsInBucket (s3New ?env) (Session ''session from the credentials of default'')
               ''media'' (fst (?st, ?log4), snd (?st, ?log4) @
                  [Printf ''You chose profile: %s and bucket: %s\<newline>'' [S ''prod'', S ''media'']]) of
              (Err err, w6) \<Rightarrow>
                (Continue,
                 (fst w6, snd w6 @ [Printf ''Error occurred expiring multipart uploads in bucket %v, %v\<newline>''
                                      [S ''media'', E err]]))
            | (NilDeref, w6) \<Rightarrow> (Panics, w6)
            | (Ok u, w6) \<Rightarrow> (Continue, w6))"
    by blast
  then have "menu_pass ?env init_globals (?st, []) =
      (Continue, (\<lparr>sim_buckets = [''media''], sim_uploads = [], sim_page = 1000,
                       sim_list_fault = [], sim_abort_fault = []\<rparr>,
                     ?log4 @ [Printf ''You chose profile: %s and bucket: %s\<newline>'' [S ''prod'', S ''media''],
                       New (Session ''session from the credentials of default'') None,
                       CallListMultipartUploads \<lparr>lmu_Bucket = Some ''media'', lmu_KeyMarker = None, lmu_UploadIdMarker = None\<rparr>,
                       CallAbortMultipartUpload \<lparr>amu_Bucket = Some ''media'', amu_Key = Some ''k1'', amu_UploadId = Some ''id-1''\<rparr>]))"
    unfolding run by simp
  then show ?thesis by (simp add: init_globals_def)
qed

end
